theory Spec2Isabelle
  imports Main "HOL-Library.Sublist"
begin

section \<open>Strings as the program reads them\<close>

text \<open>
  Command output and error messages are ASCII text. \<open>is_space\<close> lists the ASCII
  white space that JavaScript's \<open>String.prototype.trim\<close> removes, \<open>trim\<close> strips it
  from both ends, \<open>str_includes\<close> is \<open>String.prototype.includes\<close>.
\<close>

definition is_space :: "char \<Rightarrow> bool" where
  "is_space c = (c = CHR 0x09 \<or> c = CHR 0x0A \<or> c = CHR 0x0B \<or> c = CHR 0x0C
                 \<or> c = CHR 0x0D \<or> c = CHR 0x20)"

definition trim :: "string \<Rightarrow> string" where
  "trim s = rev (dropWhile is_space (rev (dropWhile is_space s)))"

fun str_includes :: "string \<Rightarrow> string \<Rightarrow> bool" where
  "str_includes [] sub = (sub = [])"
| "str_includes (c # cs) sub = (prefix sub (c # cs) \<or> str_includes cs sub)"

definition digit :: "nat \<Rightarrow> char" where
  "digit d = ''0123456789'' ! d"

fun decimal :: "nat \<Rightarrow> string" where
  "decimal n = (if n < 10 then [digit n] else decimal (n div 10) @ [digit (n mod 10)])"

declare decimal.simps [simp del]

section \<open>The outside world\<close>

text \<open>
  A JavaScript \<open>Error\<close> as the code reads it: its message and, for a failed child
  process, the captured output streams (absent when the stream was not piped).
\<close>

record js_error =
  message :: string
  stdout :: "string option"
  stderr :: "string option"

definition Error :: "string \<Rightarrow> js_error" where
  "Error m = \<lparr>message = m, stdout = None, stderr = None\<rparr>"

text \<open>
  \<open>DeployConfig\<close> and \<open>DomainConfig\<close> of \<open>types.ts\<close>; an optional property is an
  \<open>option\<close>. The resource, autoscaling, environment and secret settings are kept
  as the texts and pairs the pipeline passes on.
\<close>

record domain_config =
  dc_domain :: string
  subdomain :: "string option"
  enableSSL :: bool
  certificateARN :: "string option"
  cloudflareApiToken :: string
  cloudflareZoneId :: string

record deploy_config =
  appType :: string
  appName :: string
  port :: nat
  replicas :: nat
  region :: string
  clusterName :: string
  accessKeyId :: string
  secretAccessKey :: string
  imageRegistry :: "string option"
  namespace :: "string option"
  enableIngress :: "bool option"
  domain :: "domain_config option"
  resources :: "(string \<times> string) list option"
  autoscaling :: "(bool \<times> nat \<times> nat) option"
  envVars :: "(string \<times> string) list option"
  secrets :: "(string \<times> string) list option"
  configMaps :: "(string \<times> string) list option"
  healthCheckPath :: "string option"
  enableMetrics :: "bool option"
  artifactDir :: "string option"

text \<open>\<open>config.namespace || 'default'\<close>\<close>

definition namespace_or_default :: "deploy_config \<Rightarrow> string" where
  "namespace_or_default config =
     (case namespace config of None \<Rightarrow> ''default'' | Some n \<Rightarrow> if n \<noteq> [] then n else ''default'')"

text \<open>
  The external commands that the functions below run through
  \<open>execSync\<close>, named by what they ask:
  \<^item> \<open>GetALBPodPhase\<close>: \<open>kubectl get pods -n kube-system -l app.kubernetes.io/name=aws-load-balancer-controller -o jsonpath='{.items[0].status.phase}'\<close>;
  \<^item> \<open>GetALBReadyReplicas\<close>: \<open>kubectl get deployment aws-load-balancer-controller -n kube-system -o jsonpath='{.status.readyReplicas}' 2>/dev/null || echo "0"\<close>;
  \<^item> \<open>GetWebhookEndpoints\<close>: \<open>kubectl get endpoints aws-load-balancer-webhook-service -n kube-system -o jsonpath='{.subsets[*].addresses[*].ip}'\<close>;
  \<^item> \<open>GetALBPodsJson\<close>, \<open>GetALBPodsWide\<close>: \<open>kubectl get pods -n kube-system -l app.kubernetes.io/name=aws-load-balancer-controller\<close> with \<open>-o json\<close> and \<open>-o wide\<close>;
  \<^item> \<open>GetALBLogs\<close>: \<open>kubectl logs -n kube-system -l app.kubernetes.io/name=aws-load-balancer-controller --tail=10\<close>;
  \<^item> \<open>GetKubeSystemEvents\<close>: \<open>kubectl get events -n kube-system ... | tail -10\<close>;
  \<^item> \<open>GetNodes\<close>: \<open>kubectl get nodes\<close>; \<open>TopNodes\<close>: \<open>kubectl top nodes\<close>;
    \<open>GetNodeGroupsText\<close>: \<open>eksctl get nodegroup --cluster=...\<close>;
  \<^item> \<open>KubectlApply f\<close>: \<open>kubectl apply -f f\<close>;
  \<^item> \<open>GetAppPodsWide ns app\<close>: \<open>kubectl get pods -n ns -l app=app -o wide\<close>;
    \<open>GetNewestPodName ns app\<close>: the same list sorted by creation time, with
    \<open>-o jsonpath='{.items[-1].metadata.name}'\<close>;
    \<open>DescribePodEvents pod ns\<close>: \<open>kubectl describe pod pod -n ns | grep -A 10 "Events:"\<close>;
    \<open>GetPodLogs pod ns\<close>: \<open>kubectl logs pod -n ns --tail=20\<close>;
  \<^item> \<open>KubectlDelete kind name ns\<close>: \<open>kubectl delete kind name -n ns --ignore-not-found\<close>;
  \<^item> \<open>GetNodesCount\<close>: \<open>kubectl get nodes --no-headers 2>/dev/null | wc -l || echo "0"\<close>;
    \<open>GetReadyNodesCount\<close>: \<open>kubectl get nodes --no-headers 2>/dev/null | grep -c Ready || echo "0"\<close>;
  \<^item> \<open>GetNodeGroupsJson cluster region\<close>: \<open>eksctl get nodegroup --cluster=cluster --region=region -o json 2>/dev/null || echo "[]"\<close>;
    \<open>ScaleNodeGroup cluster name region\<close>: \<open>eksctl scale nodegroup --cluster=cluster --name=name --nodes=1 --region=region\<close>;
    \<open>CreateNodeGroup cluster region\<close>: \<open>eksctl create nodegroup --cluster=cluster --nodes=1 --node-type=t3.small --region=region --managed\<close>;
  \<^item> \<open>CreateNamespace ns\<close>: \<open>kubectl create namespace ns\<close>;
    \<open>RolloutStatus app ns t\<close>: \<open>kubectl rollout status deployment/app -n ns --timeout=ts\<close>;
  \<^item> \<open>GetALBDeploymentJson\<close>: \<open>kubectl get deployment aws-load-balancer-controller -n kube-system -o json 2>/dev/null || echo "not found"\<close>;
    \<open>CreateIAMServiceAccount cluster region\<close>: \<open>eksctl create iamserviceaccount ...\<close>;
    \<open>HelmVersion\<close>, \<open>BrewInstallHelm\<close>, \<open>HelmRepoAdd\<close>, \<open>HelmRepoUpdate\<close>,
    \<open>HelmInstall cluster\<close> (\<open>helm install ... --wait --timeout=10m\<close>) and
    \<open>HelmUpgradeInstall cluster\<close> (\<open>helm upgrade --install ...\<close>);
  \<^item> \<open>GetIngressJson name ns\<close>: \<open>kubectl get ingress name -n ns -o json\<close>;
    \<open>GetIngressEventsJson name ns\<close>: \<open>kubectl get events -n ns --field-selector involvedObject.name=name ... -o json 2>/dev/null || echo "{}"\<close>;
    \<open>AnnotateIngress name ns a\<close>: \<open>kubectl annotate ingress name -n ns a --overwrite\<close>;
    \<open>GetIngressListenPorts name ns\<close>: the \<open>listen-ports\<close> annotation of the ingress;
    \<open>GetServiceJson name ns\<close>: \<open>kubectl get service name -n ns -o json\<close>.
  The file system and the certificate service are asked in the same way:
  \<open>FsEnsureDir\<close>, \<open>FsWriteFile\<close>, \<open>FsExists\<close> (which prints \<open>true\<close> when the
  file exists), \<open>AcmDescribeCertificate arn\<close> (which prints the certificate's
  status) and \<open>AcmRequestCertificate hostname\<close> (which prints the new ARN).
  \<open>Helper name\<close> is a call of a function of the repository that is modelled by its
  interface only: one step of the world, whose answer is what the function returns or
  throws.
\<close>

datatype cmd =
    GetALBPodPhase
  | GetALBReadyReplicas
  | GetWebhookEndpoints
  | GetALBPodsJson
  | GetALBPodsWide
  | GetALBLogs
  | GetKubeSystemEvents
  | GetNodes
  | TopNodes
  | GetNodeGroupsText
  | KubectlApply string
  | GetAppPodsWide string string
  | GetNewestPodName string string
  | DescribePodEvents string string
  | GetPodLogs string string
  | KubectlDelete string string string
  | GetNodesCount
  | GetReadyNodesCount
  | GetNodeGroupsJson string string
  | ScaleNodeGroup string string string
  | CreateNodeGroup string string
  | CreateNamespace string
  | RolloutStatus string string nat
  | GetALBDeploymentJson
  | CreateIAMServiceAccount string string
  | HelmVersion
  | BrewInstallHelm
  | HelmRepoAdd
  | HelmRepoUpdate
  | HelmInstall string
  | HelmUpgradeInstall string
  | GetIngressJson string string
  | GetIngressEventsJson string string
  | AnnotateIngress string string string
  | GetIngressListenPorts string string
  | GetServiceJson string string
  | FsEnsureDir string
  | FsWriteFile string
  | FsExists string
  | AcmDescribeCertificate string
  | AcmRequestCertificate string
  | Helper string

text \<open>
  The parts of the pod list (\<open>kubectl get pods -o json\<close>) that the code reads, as
  \<open>JSON.parse\<close> delivers them: for each item its \<open>status\<close> with \<open>phase\<close>, the
  \<open>waiting\<close> and \<open>terminated\<close> state of the first container status, and the
  conditions. An absent property is \<open>None\<close>.
\<close>

record reason_message =
  rm_reason :: "string option"
  rm_message :: "string option"

record pod_condition =
  cond_type :: string
  cond_status :: string
  cond_reason :: "string option"
  cond_message :: "string option"

record container_status =
  state_waiting :: "reason_message option"
  state_terminated :: "reason_message option"

record pod_status =
  status_phase :: "string option"
  status_containerStatuses :: "container_status list option"
  status_conditions :: "pod_condition list option"

text \<open>A node group as \<open>eksctl get nodegroup -o json\<close> lists it, with the properties
  the code reads.\<close>

record nodegroup =
  ng_Name :: string
  ng_Status :: string
  ng_DesiredCapacity :: "nat option"
  ng_CurrentCapacity :: "nat option"

text \<open>An event of the cluster as \<open>kubectl get events -o json\<close> lists it.\<close>

record k8s_event =
  ev_type :: string
  ev_reason :: string
  ev_message :: "string option"

text \<open>
  The environment answers the \<open>k\<close>-th external command of a run (\<open>shell\<close>: its
  output, or the error \<open>execSync\<close> throws) and says how long that command took
  (\<open>took\<close>, in milliseconds); \<open>parse_pods\<close> is \<open>JSON.parse\<close> on the text of a
  pod list (its \<open>items\<close>, or the syntax error), \<open>parse_nodegroups\<close> on the
  text of a node-group list, \<open>parse_ingress\<close> on an ingress (the host name
  \<open>status.loadBalancer.ingress[0].hostname\<close>, if any), \<open>parse_events\<close> on an event
  list (its \<open>items\<close>), \<open>parse_service\<close> on a service (its name, namespace and
  type); \<open>cwd\<close> is \<open>process.cwd()\<close>. The world records what the program did: the clock
  \<open>Date.now()\<close> reads, the number of commands run, the time spent in
  \<open>setTimeout\<close>, and the trace of commands, sleeps and reported lines. A reported
  line is recorded without its indentation, colour and leading symbol; of a block of lines
  printed together the leading one is recorded, and the advisory lines after it only where
  a function is followed line by line (the node check, the certificate check).
\<close>

record env =
  shell :: "nat \<Rightarrow> cmd \<Rightarrow> js_error + string"
  took :: "nat \<Rightarrow> nat"
  parse_pods :: "string \<Rightarrow> js_error + pod_status list option"
  parse_nodegroups :: "string \<Rightarrow> js_error + nodegroup list"
  parse_ingress :: "string \<Rightarrow> js_error + string option"
  parse_events :: "string \<Rightarrow> js_error + k8s_event list option"
  parse_service :: "string \<Rightarrow> js_error + string \<times> string \<times> string"
  cwd :: string

datatype event = Exec cmd | Sleep nat | Log string

record world =
  now :: nat
  calls :: nat
  slept :: nat
  trace :: "event list"

definition exec :: "env \<Rightarrow> cmd \<Rightarrow> world \<Rightarrow> (js_error + string) \<times> world" where
  "exec env c w =
     (shell env (calls w) c,
      w\<lparr>now := now w + took env (calls w), calls := Suc (calls w),
        trace := trace w @ [Exec c]\<rparr>)"

definition sleep :: "nat \<Rightarrow> world \<Rightarrow> world" where
  "sleep ms w = w\<lparr>now := now w + ms, slept := slept w + ms, trace := trace w @ [Sleep ms]\<rparr>"

definition say :: "string \<Rightarrow> world \<Rightarrow> world" where
  "say line w = w\<lparr>trace := trace w @ [Log line]\<rparr>"

section \<open>Readiness probes of the load-balancer controller\<close>

definition checkALBPodReady :: "env \<Rightarrow> world \<Rightarrow> bool \<times> world" where
  "checkALBPodReady env w =
     (case exec env GetALBPodPhase w of
        (Inr podStatus, w') \<Rightarrow> (trim podStatus = ''Running'', w')
      | (Inl error, w') \<Rightarrow> (False, w'))"

definition checkALBDeploymentReady :: "env \<Rightarrow> world \<Rightarrow> bool \<times> world" where
  "checkALBDeploymentReady env w =
     (case exec env GetALBReadyReplicas w of
        (Inr readyReplicas, w') \<Rightarrow> (trim readyReplicas = ''1'' \<or> trim readyReplicas = ''2'', w')
      | (Inl error, w') \<Rightarrow> (False, w'))"

definition checkWebhookReady :: "env \<Rightarrow> world \<Rightarrow> bool \<times> world" where
  "checkWebhookReady env w =
     (let (podReady, w1) = checkALBPodReady env w;
          (deploymentReady, w2) = checkALBDeploymentReady env w1
      in if \<not> podReady \<or> \<not> deploymentReady then (False, w2)
         else (case exec env GetWebhookEndpoints w2 of
                 (Inr endpointsResult, w3) \<Rightarrow> (trim endpointsResult \<noteq> [], w3)
               | (Inl error, w3) \<Rightarrow> (False, w3)))"

section \<open>JavaScript helpers\<close>

text \<open>
  \<open>truthy\<close> and \<open>js_or\<close> are JavaScript's truthiness and \<open>||\<close> on an optional
  string (\<open>None\<close> is \<open>undefined\<close>); \<open>split_on\<close> and \<open>join_with\<close> are
  \<open>split\<close> and \<open>join\<close> with a one-character separator; \<open>slice_last\<close> is
  \<open>slice(-n)\<close>.
\<close>

definition truthy :: "string option \<Rightarrow> bool" where
  "truthy v = (case v of None \<Rightarrow> False | Some t \<Rightarrow> t \<noteq> [])"

definition js_or :: "string option \<Rightarrow> string option \<Rightarrow> string option" where
  "js_or a b = (if truthy a then a else b)"

fun split_on :: "char \<Rightarrow> string \<Rightarrow> string list" where
  "split_on d [] = [[]]"
| "split_on d (c # cs) =
     (if c = d then [] # split_on d cs
      else (case split_on d cs of [] \<Rightarrow> [[c]] | x # xs \<Rightarrow> (c # x) # xs))"

fun join_with :: "string \<Rightarrow> string list \<Rightarrow> string" where
  "join_with d [] = []"
| "join_with d [x] = x"
| "join_with d (x # y # ys) = x @ d @ join_with d (y # ys)"

definition slice_last :: "nat \<Rightarrow> 'a list \<Rightarrow> 'a list" where
  "slice_last n xs = drop (length xs - n) xs"

definition newline :: char where
  "newline = CHR 0x0A"

section \<open>Diagnostics of the load-balancer controller\<close>

record alb_pod_status =
  pod_phase :: string
  pod_reason :: "string option"
  pod_message :: "string option"
  pod_conditions :: "pod_condition list option"

definition unscheduled :: "pod_condition \<Rightarrow> bool" where
  "unscheduled c = (cond_type c = ''PodScheduled'' \<and> cond_status c \<noteq> ''True'')"

definition opt_bind :: "'a option \<Rightarrow> ('a \<Rightarrow> 'b option) \<Rightarrow> 'b option" where
  "opt_bind v f = (case v of None \<Rightarrow> None | Some a \<Rightarrow> f a)"

definition podStatusOf :: "pod_status \<Rightarrow> alb_pod_status" where
  "podStatusOf podStatus =
     (let containerStatus =
            (case status_containerStatuses podStatus of
               None \<Rightarrow> None | Some [] \<Rightarrow> None | Some (c # cs) \<Rightarrow> Some c);
          waitingState = opt_bind containerStatus state_waiting;
          terminatedState = opt_bind containerStatus state_terminated;
          pendingReason =
            (case status_conditions podStatus of
               None \<Rightarrow> None | Some cs \<Rightarrow> find unscheduled cs)
      in \<lparr>pod_phase = (if truthy (status_phase podStatus)
                       then (case status_phase podStatus of Some p \<Rightarrow> p | None \<Rightarrow> ''Unknown'')
                       else ''Unknown''),
          pod_reason = js_or (opt_bind waitingState rm_reason)
                         (js_or (opt_bind terminatedState rm_reason)
                            (opt_bind pendingReason cond_reason)),
          pod_message = js_or (opt_bind waitingState rm_message)
                          (js_or (opt_bind terminatedState rm_message)
                             (opt_bind pendingReason cond_message)),
          pod_conditions = status_conditions podStatus\<rparr>)"

text \<open>\<open>getALBPodStatus\<close>: the whole body is one \<open>try\<close> whose \<open>catch\<close> is empty; every
  failure, and an empty pod list, gives \<open>null\<close>.\<close>

definition getALBPodStatus :: "env \<Rightarrow> world \<Rightarrow> alb_pod_status option \<times> world" where
  "getALBPodStatus env w =
     (case exec env GetALBPodsJson w of
        (Inl error, w') \<Rightarrow> (None, w')
      | (Inr podInfo, w') \<Rightarrow>
          (case parse_pods env podInfo of
             Inl error \<Rightarrow> (None, w')
           | Inr None \<Rightarrow> (None, w')
           | Inr (Some []) \<Rightarrow> (None, w')
           | Inr (Some (item # items)) \<Rightarrow> (Some (podStatusOf item), w')))"

text \<open>
  \<open>showALBDiagnostics\<close> is a sequence of blocks, each a \<open>try\<close> of its own; the
  definitions \<open>diag_podStatus\<close> to \<open>diag_commonIssues\<close> are these blocks in the
  order of the source, and what they print is the report. An advice block of several
  lines is recorded by its first line.
\<close>

definition say_if :: "bool \<Rightarrow> string \<Rightarrow> world \<Rightarrow> world" where
  "say_if b line w = (if b then say line w else w)"

definition diag_podStatus :: "env \<Rightarrow> world \<Rightarrow> world" where
  "diag_podStatus env w =
     (case getALBPodStatus env w of
        (None, w1) \<Rightarrow> w1
      | (Some podStatus, w1) \<Rightarrow>
          (let w2 = say (''Pod Status: '' @ pod_phase podStatus) w1;
               w3 = (case pod_reason podStatus of
                       Some r \<Rightarrow> say_if (r \<noteq> []) (''Reason: '' @ r) w2 | None \<Rightarrow> w2);
               w4 = (case pod_message podStatus of
                       Some m \<Rightarrow> say_if (m \<noteq> []) (''Message: '' @ m) w3 | None \<Rightarrow> w3)
           in (case pod_conditions podStatus of
                 None \<Rightarrow> w4
               | Some cs \<Rightarrow>
                   (case find unscheduled cs of
                      None \<Rightarrow> w4
                    | Some u \<Rightarrow>
                        (let w5 = say (''Pod not scheduled: '' @
                                    (if truthy (cond_reason u)
                                     then (case cond_reason u of Some r \<Rightarrow> r | None \<Rightarrow> ''Unknown'')
                                     else ''Unknown'')) w4
                         in (case cond_message u of
                               Some m \<Rightarrow> say_if (m \<noteq> []) m w5 | None \<Rightarrow> w5))))))"

definition diag_podDetails :: "env \<Rightarrow> world \<Rightarrow> world" where
  "diag_podDetails env w =
     (case exec env GetALBPodsWide w of
        (Inl error, w1) \<Rightarrow> w1
      | (Inr podInfo, w1) \<Rightarrow>
          (if trim podInfo \<noteq> [] then say (trim podInfo) (say ''Pod details:'' w1) else w1))"

definition diag_logs :: "env \<Rightarrow> world \<Rightarrow> world" where
  "diag_logs env w =
     (case exec env GetALBLogs w of
        (Inl error, w1) \<Rightarrow> say ''Could not fetch logs (pod may not be running yet)'' w1
      | (Inr podLogs, w1) \<Rightarrow>
          (if trim podLogs \<noteq> []
           then say (join_with [newline] (slice_last 5 (split_on newline (trim podLogs))))
                  (say ''Recent logs:'' w1)
           else say ''No logs available (pod may not be running yet)'' w1))"

definition diag_events :: "env \<Rightarrow> world \<Rightarrow> world" where
  "diag_events env w =
     (case exec env GetKubeSystemEvents w of
        (Inl error, w1) \<Rightarrow> w1
      | (Inr events, w1) \<Rightarrow>
          (if trim events \<noteq> [] then say (trim events) (say ''Recent events:'' w1) else w1))"

definition diag_nodes :: "env \<Rightarrow> world \<Rightarrow> world" where
  "diag_nodes env w =
     (case exec env GetNodes w of
        (Inl error, w1) \<Rightarrow> say ''Could not check nodes (cluster may not be accessible)'' w1
      | (Inr nodes, w1) \<Rightarrow>
          (if trim nodes \<noteq> [] then
             (let w2 = say (trim nodes) (say ''Cluster nodes:'' w1);
                  nodeLines = drop 1 (split_on newline (trim nodes))
              in if length nodeLines = 0 then say ''NO NODES FOUND IN CLUSTER!'' w2
                 else (let notReadyNodes = filter (\<lambda>line. str_includes line ''NotReady'') nodeLines
                       in say_if (length notReadyNodes > 0)
                            (decimal (length notReadyNodes) @ '' node(s) are NotReady'') w2))
           else say ''NO NODES FOUND IN CLUSTER!'' w1))"

definition diag_nodeResources :: "env \<Rightarrow> world \<Rightarrow> world" where
  "diag_nodeResources env w =
     (case exec env TopNodes w of
        (Inl error, w1) \<Rightarrow>
          say ''Node resource metrics not available (metrics-server may not be installed)'' w1
      | (Inr nodeResources, w1) \<Rightarrow>
          (if trim nodeResources \<noteq> []
           then say (trim nodeResources) (say ''Node resources:'' w1) else w1))"

definition diag_nodeGroups :: "env \<Rightarrow> world \<Rightarrow> world" where
  "diag_nodeGroups env w =
     (case exec env GetNodeGroupsText w of
        (Inl error, w1) \<Rightarrow> w1
      | (Inr nodeGroups, w1) \<Rightarrow>
          (if trim nodeGroups \<noteq> [] \<and> \<not> str_includes nodeGroups ''error''
           then say (trim nodeGroups) (say ''Node groups:'' w1) else w1))"

definition diag_commonIssues :: "env \<Rightarrow> world \<Rightarrow> world" where
  "diag_commonIssues env w =
     (case getALBPodStatus env (say ''Common issues and solutions:'' w) of
        (podStatus, w1) \<Rightarrow>
          (if (case podStatus of
                 None \<Rightarrow> False
               | Some ps \<Rightarrow>
                   pod_reason ps = Some ''Unschedulable'' \<and>
                   (case pod_message ps of
                      None \<Rightarrow> False | Some m \<Rightarrow> str_includes m ''no nodes available''))
           then say ''CRITICAL: No nodes available in cluster!'' w1
           else say ''1. Insufficient resources:'' w1))"

definition showALBDiagnostics :: "env \<Rightarrow> world \<Rightarrow> (js_error + unit) \<times> world" where
  "showALBDiagnostics env w =
     (let w1 = diag_podStatus env (say ''ALB Controller Diagnostics:'' w);
          w2 = diag_podDetails env w1;
          w3 = diag_logs env w2;
          w4 = diag_events env w3;
          w5 = diag_nodes env w4;
          w6 = diag_nodeResources env w5;
          w7 = diag_nodeGroups env w6;
          w8 = diag_commonIssues env w7
      in (Inr (), w8))"

section \<open>Waiting for the controller's webhook\<close>

text \<open>
  The loop of \<open>waitForALBWebhookReady\<close>: \<open>i\<close> counts the iterations, \<open>podReady\<close> and
  \<open>deploymentReady\<close> are the loop's two flags. The result \<open>True\<close> is the
  \<open>return true\<close> inside the loop, \<open>False\<close> is the loop running out.
\<close>

function waitForALBWebhookReady_loop ::
  "env \<Rightarrow> nat \<Rightarrow> nat \<Rightarrow> bool \<Rightarrow> bool \<Rightarrow> world \<Rightarrow> bool \<times> world" where
  "waitForALBWebhookReady_loop env maxIterations i podReady deploymentReady w =
     (if i < maxIterations then
        (let (podReady1, w1) =
               (if \<not> podReady
                then (case checkALBPodReady env w of
                        (r, w') \<Rightarrow> (r, say_if r ''ALB Controller pod is running'' w'))
                else (podReady, w));
             (deploymentReady1, w2) =
               (if \<not> deploymentReady
                then (case checkALBDeploymentReady env w1 of
                        (r, w') \<Rightarrow> (r, say_if r ''ALB Controller deployment is ready'' w'))
                else (deploymentReady, w1));
             (endpointsReady, w3) =
               (if podReady1 \<and> deploymentReady1
                then (case exec env GetWebhookEndpoints w2 of
                        (Inr endpointsResult, w') \<Rightarrow> (trim endpointsResult \<noteq> [], w')
                      | (Inl error, w') \<Rightarrow> (False, w'))
                else (False, w2))
         in if endpointsReady
            then (True, sleep 2000 (say ''ALB Controller webhook endpoints are ready'' w3))
            else waitForALBWebhookReady_loop env maxIterations (Suc i) podReady1 deploymentReady1
                   (if i < maxIterations - 1 then sleep 3000 w3 else w3))
      else (False, w))"
  by pat_completeness auto
termination
  by (relation "measure (\<lambda>(env, maxIterations, i, podReady, deploymentReady, w). maxIterations - i)")
    auto

declare waitForALBWebhookReady_loop.simps [simp del]

definition waitForALBWebhookReady :: "env \<Rightarrow> nat \<Rightarrow> world \<Rightarrow> (js_error + bool) \<times> world" where
  "waitForALBWebhookReady env maxWaitSeconds w =
     (let startTime = now w;
          maxIterations = maxWaitSeconds div 3
      in (case waitForALBWebhookReady_loop env maxIterations 0 False False w of
            (True, w1) \<Rightarrow> (Inr True, w1)
          | (False, w1) \<Rightarrow>
              (let finalElapsed = (now w1 - startTime) div 1000;
                   w2 = say (''ALB Controller webhook not ready after '' @ decimal finalElapsed @ ''s.'') w1
               in (case getALBPodStatus env w2 of
                     (None, w3) \<Rightarrow> (Inr False, say ''Will retry on apply with timeout...'' w3)
                   | (Some podStatus, w3) \<Rightarrow>
                       (if pod_phase podStatus \<noteq> ''Running'' then
                          (case showALBDiagnostics env
                                  (say (''ALB Controller pod is not Running (status: '' @
                                        pod_phase podStatus @ '')'') w3) of
                             (Inl error, w4) \<Rightarrow> (Inl error, w4)
                           | (Inr u, w4) \<Rightarrow> (Inr False, say ''Will retry on apply with timeout...'' w4))
                        else (Inr False, say ''Will retry on apply with timeout...'' w3))))))"

section \<open>Applying a manifest with retries\<close>

definition maxTotalWait :: nat where
  "maxTotalWait = 300"

definition webhook_needle :: string where
  "webhook_needle = ''no endpoints available for service '' @ [CHR 0x22] @
     ''aws-load-balancer-webhook-service'' @ [CHR 0x22]"

text \<open>\<open>error.message || error.stdout?.toString() || error.stderr?.toString() || ''\<close>\<close>

definition errorMessage_of :: "js_error \<Rightarrow> string" where
  "errorMessage_of error =
     (if message error \<noteq> [] then message error
      else if truthy (stdout error) then (case stdout error of Some t \<Rightarrow> t | None \<Rightarrow> [])
      else (case stderr error of Some t \<Rightarrow> t | None \<Rightarrow> []))"

text \<open>
  The inner loop of \<open>applyWithRetry\<close> (\<open>for j\<close>): it polls \<open>checkWebhookReady\<close> every
  three seconds; the result is the flag \<open>webhookReady\<close> as the loop leaves it.
\<close>

function applyWithRetry_wait ::
  "env \<Rightarrow> nat \<Rightarrow> nat \<Rightarrow> nat \<Rightarrow> nat \<Rightarrow> world \<Rightarrow> bool \<times> world" where
  "applyWithRetry_wait env maxWaitPerRetry totalElapsed waitStartTime j w =
     (if j < maxWaitPerRetry div 3 then
        (let waitElapsed = (now w - waitStartTime) div 1000
         in if totalElapsed + waitElapsed \<ge> maxTotalWait
            then (False, say ''Max total wait time reached (300s), retrying anyway...'' w)
            else (case checkWebhookReady env w of
                    (True, w1) \<Rightarrow> (True, sleep 2000 (say ''Webhook is ready, retrying apply...'' w1))
                  | (False, w1) \<Rightarrow>
                      applyWithRetry_wait env maxWaitPerRetry totalElapsed waitStartTime (Suc j)
                        (sleep 3000 w1)))
      else (False, w))"
  by pat_completeness auto
termination
  by (relation "measure (\<lambda>(env, maxWaitPerRetry, totalElapsed, waitStartTime, j, w).
                   maxWaitPerRetry div 3 - j)") auto

declare applyWithRetry_wait.simps [simp del]

text \<open>The error that \<open>applyWithRetry\<close> throws when it gives up.\<close>

definition webhookNotReady :: "nat \<Rightarrow> js_error" where
  "webhookNotReady totalElapsed =
     Error (''Webhook service not ready after '' @ decimal totalElapsed @
            ''s. Please check ALB Controller diagnostics above and try again.'')"

text \<open>The outer loop of \<open>applyWithRetry\<close> (\<open>for i\<close>) and the function itself.\<close>

function applyWithRetry_loop ::
  "env \<Rightarrow> cmd \<Rightarrow> nat \<Rightarrow> nat \<Rightarrow> nat \<Rightarrow> nat \<Rightarrow> world \<Rightarrow> (js_error + unit) \<times> world" where
  "applyWithRetry_loop env command maxRetries maxWaitPerRetry startTime i w =
     (if i < maxRetries then
        (case exec env command w of
           (Inr out, w1) \<Rightarrow> (Inr (), w1)
         | (Inl error, w1) \<Rightarrow>
             (let errorMessage = errorMessage_of error;
                  totalElapsed = (now w1 - startTime) div 1000
              in if str_includes errorMessage webhook_needle then
                   (if i < maxRetries - 1 \<and> totalElapsed < maxTotalWait then
                      (let w2 = say (''Webhook not ready: '' @ errorMessage) w1;
                           waitStartTime = now w2
                       in (case applyWithRetry_wait env maxWaitPerRetry totalElapsed waitStartTime 0 w2 of
                             (webhookReady, w3) \<Rightarrow>
                               applyWithRetry_loop env command maxRetries maxWaitPerRetry startTime (Suc i)
                                 (if \<not> webhookReady then sleep 5000 w3 else w3)))
                    else
                      (case showALBDiagnostics env
                              (say (''Webhook service not ready after '' @ decimal totalElapsed @
                                    ''s and '' @ decimal (i + 1) @ '' retries.'') w1) of
                         (Inl e, w2) \<Rightarrow> (Inl e, w2)
                       | (Inr u, w2) \<Rightarrow>
                           (Inl (webhookNotReady totalElapsed), w2)))
                 else (Inl error, w1)))
      else (Inr (), w))"
  by pat_completeness auto
termination
  by (relation "measure (\<lambda>(env, command, maxRetries, maxWaitPerRetry, startTime, i, w).
                   maxRetries - i)") auto

declare applyWithRetry_loop.simps [simp del]

definition applyWithRetry :: "env \<Rightarrow> cmd \<Rightarrow> nat \<Rightarrow> nat \<Rightarrow> world \<Rightarrow> (js_error + unit) \<times> world" where
  "applyWithRetry env command maxRetries maxWaitPerRetry w =
     applyWithRetry_loop env command maxRetries maxWaitPerRetry (now w) 0 w"

section \<open>Diagnosing a failed rollout\<close>

text \<open>
  \<open>diagnoseDeploymentFailure\<close> of \<open>diagnose.ts\<close> has two \<open>try\<close> blocks:
  \<open>diagnose_podStatus\<close> lists the application's pods and names the issues it
  recognises, \<open>diagnose_podEvents\<close> looks up the newest pod, prints its events and,
  in a \<open>try\<close> of its own inside the second block, its logs.
\<close>

definition diagnose_podStatus :: "env \<Rightarrow> string \<Rightarrow> string \<Rightarrow> world \<Rightarrow> world" where
  "diagnose_podStatus env ns app w =
     (case exec env (GetAppPodsWide ns app) w of
        (Inl e, w1) \<Rightarrow> say ''Could not get pods'' w1
      | (Inr pods, w1) \<Rightarrow>
          say_if (str_includes pods ''Pending'') ''Issue Detected: Pods Stuck in Pending''
            (say_if (str_includes pods ''CreateContainerConfigError'')
               ''Issue Detected: Configuration Error''
               (say_if (str_includes pods ''ImagePullBackOff'' \<or> str_includes pods ''ErrImagePull'')
                  ''Issue Detected: ImagePullBackOff''
                  (say pods w1))))"

definition diagnose_podEvents :: "env \<Rightarrow> string \<Rightarrow> string \<Rightarrow> world \<Rightarrow> world" where
  "diagnose_podEvents env ns app w =
     (case exec env (GetNewestPodName ns app) w of
        (Inl e, w1) \<Rightarrow> say ''Could not analyze pod events'' w1
      | (Inr out, w1) \<Rightarrow>
          (let podName = trim out
           in if podName \<noteq> [] then
                (case exec env (DescribePodEvents podName ns)
                        (say (''Inspecting Pod: '' @ podName) w1) of
                   (Inl e, w2) \<Rightarrow> say ''Could not analyze pod events'' w2
                 | (Inr events, w2) \<Rightarrow>
                     (case exec env (GetPodLogs podName ns)
                             (say ''Diagnostics: Pod Logs (Application Crash?)...'' w2) of
                        (Inl e, w3) \<Rightarrow>
                          say ''Could not fetch logs (Pod might be in ImagePullBackOff or ContainerCreating state)'' w3
                      | (Inr logs, w3) \<Rightarrow> w3))
              else w1))"

definition diagnoseDeploymentFailure ::
  "env \<Rightarrow> deploy_config \<Rightarrow> world \<Rightarrow> (js_error + unit) \<times> world" where
  "diagnoseDeploymentFailure env config w =
     (let ns = namespace_or_default config;
          w1 = diagnose_podStatus env ns (appName config)
                 (say ''Diagnostics: Checking Pod Status...'' w);
          w2 = diagnose_podEvents env ns (appName config)
                 (say ''Diagnostics: Pod Events (Why is it failing?)...'' w1)
      in (Inr (), w2))"

section \<open>Deleting an application\<close>

text \<open>
  The action of the \<open>delete\<close> command: \<open>delete_resources\<close> is its array
  \<open>resources\<close>, \<open>deleteEach\<close> its loop over them (the spinner only draws),
  \<open>deleteResources\<close> the loop inside the outer \<open>try\<close>, which rethrows, and the line
  that follows it.
\<close>

definition quoted :: "string \<Rightarrow> string" where
  "quoted t = [CHR 0x27] @ t @ [CHR 0x27]"

definition delete_resources :: "string \<Rightarrow> (string \<times> string) list" where
  "delete_resources app =
     [(''deployment'', app), (''service'', app @ ''-service''),
      (''ingress'', app @ ''-ingress''), (''hpa'', app @ ''-hpa'')]"

fun deleteEach ::
  "env \<Rightarrow> string \<Rightarrow> (string \<times> string) list \<Rightarrow> world \<Rightarrow> (js_error + unit) \<times> world" where
  "deleteEach env ns [] w = (Inr (), w)"
| "deleteEach env ns ((kind, name) # rest) w =
     (case exec env (KubectlDelete kind name ns) w of
        (Inr out, w1) \<Rightarrow>
          deleteEach env ns rest (say (kind @ '' '' @ quoted name @ '' deleted'') w1)
      | (Inl error, w1) \<Rightarrow>
          deleteEach env ns rest
            (say_if (\<not> str_includes (message error) ''not found'')
               (kind @ '' '' @ quoted name @ '' - '' @ message error) w1))"

definition deleteResources :: "env \<Rightarrow> string \<Rightarrow> string \<Rightarrow> world \<Rightarrow> (js_error + unit) \<times> world" where
  "deleteResources env ns app w =
     (case deleteEach env ns (delete_resources app) w of
        (Inl error, w1) \<Rightarrow> (Inl error, w1)
      | (Inr u, w1) \<Rightarrow> (Inr (), say (''Deleted '' @ quoted app @ '' and related resources.'') w1))"

section \<open>Checking the cluster's nodes\<close>

text \<open>
  \<open>parseInt\<close> with no radix: leading white space, a sign, the prefix \<open>0x\<close> for
  base 16, then the longest run of digits; \<open>None\<close> is \<open>NaN\<close>.
  \<open>parseInt_or0\<close> is \<open>parseInt(...) || 0\<close>.
\<close>

definition digit_value :: "nat \<Rightarrow> char \<Rightarrow> nat option" where
  "digit_value radix c =
     (let n = (of_char c :: nat);
          v = (if 48 \<le> n \<and> n \<le> 57 then Some (n - 48)
               else if 97 \<le> n \<and> n \<le> 122 then Some (n - 87)
               else if 65 \<le> n \<and> n \<le> 90 then Some (n - 55)
               else None)
      in (case v of None \<Rightarrow> None | Some d \<Rightarrow> if d < radix then Some d else None))"

fun digits_prefix :: "nat \<Rightarrow> string \<Rightarrow> nat list" where
  "digits_prefix radix [] = []"
| "digits_prefix radix (c # cs) =
     (case digit_value radix c of None \<Rightarrow> [] | Some d \<Rightarrow> d # digits_prefix radix cs)"

definition parseInt :: "string \<Rightarrow> int option" where
  "parseInt input =
     (let s = dropWhile is_space input;
          (neg, s1) = (case s of
                         [] \<Rightarrow> (False, s)
                       | c # cs \<Rightarrow> if c = CHR ''-'' then (True, cs)
                                  else if c = CHR ''+'' then (False, cs) else (False, s));
          (radix, s2) = (case s1 of
                           a # b # cs \<Rightarrow>
                             if a = CHR ''0'' \<and> (b = CHR ''x'' \<or> b = CHR ''X'')
                             then (16, cs) else (10, s1)
                         | _ \<Rightarrow> (10, s1));
          ds = digits_prefix radix s2
      in if ds = [] then None
         else Some ((if neg then - 1 else 1) * int (foldl (\<lambda>a d. a * radix + d) 0 ds)))"

definition parseInt_or0 :: "string \<Rightarrow> int" where
  "parseInt_or0 t = (case parseInt t of None \<Rightarrow> 0 | Some n \<Rightarrow> n)"

text \<open>
  The inner \<open>try\<close> of \<open>checkAndEnsureNodes\<close>: it inspects the node groups, scales
  or creates one, and turns any failure into the error \<open>cluster_has_no_nodes\<close>.
\<close>

definition cluster_has_no_nodes :: js_error where
  "cluster_has_no_nodes = Error ''Cluster has no nodes. Please create a node group and try again.''"

definition capacity :: "nat option \<Rightarrow> nat" where
  "capacity v = (case v of None \<Rightarrow> 0 | Some n \<Rightarrow> n)"

definition ensureNodeGroup_try :: "env \<Rightarrow> deploy_config \<Rightarrow> world \<Rightarrow> (js_error + unit) \<times> world" where
  "ensureNodeGroup_try env config w =
     (case exec env (GetNodeGroupsJson (clusterName config) (region config)) w of
        (Inl error, w1) \<Rightarrow> (Inl error, w1)
      | (Inr nodeGroupsResult, w1) \<Rightarrow>
          (case parse_nodegroups env (trim nodeGroupsResult) of
             Inl error \<Rightarrow> (Inl error, w1)
           | Inr nodeGroups \<Rightarrow>
               (if length nodeGroups > 0 then
                  (case filter (\<lambda>ng. ng_Status ng = ''ACTIVE'') nodeGroups of
                     [] \<Rightarrow> (Inr (), say ''Node groups exist but none are ACTIVE'' w1)
                   | nodeGroup # others \<Rightarrow>
                       (let desiredSize = capacity (ng_DesiredCapacity nodeGroup);
                            currentSize = capacity (ng_CurrentCapacity nodeGroup)
                        in if currentSize = 0 \<and> desiredSize = 0 then
                             (case exec env (ScaleNodeGroup (clusterName config) (ng_Name nodeGroup)
                                               (region config))
                                     (say (''Scaling up node group '' @ quoted (ng_Name nodeGroup) @
                                           '' to 1 node...'') w1) of
                                (Inl error, w2) \<Rightarrow> (Inl error, w2)
                              | (Inr out, w2) \<Rightarrow> (Inr (), w2))
                           else if desiredSize > 0 \<and> currentSize = 0 then
                             (Inr (), say (''Node group '' @ quoted (ng_Name nodeGroup) @
                                           '' is scaling (desired: '' @ decimal desiredSize @
                                           '', current: '' @ decimal currentSize @ '')'') w1)
                           else
                             (Inr (), say (''Node group '' @ quoted (ng_Name nodeGroup) @
                                           '' exists but nodes may not be ready yet'') w1)))
                else
                  (case exec env (CreateNodeGroup (clusterName config) (region config))
                          (say ''No node groups found. Creating default node group...'' w1) of
                     (Inl error, w2) \<Rightarrow> (Inl error, w2)
                   | (Inr out, w2) \<Rightarrow> (Inr (), w2)))))"

definition ensureNodeGroup :: "env \<Rightarrow> deploy_config \<Rightarrow> world \<Rightarrow> (js_error + unit) \<times> world" where
  "ensureNodeGroup env config w =
     (case ensureNodeGroup_try env config w of
        (Inr u, w1) \<Rightarrow> (Inr (), w1)
      | (Inl error, w1) \<Rightarrow>
          (Inl cluster_has_no_nodes,
           say (''eksctl create nodegroup --cluster='' @ clusterName config @
                '' --nodes=1 --node-type=t3.small --region='' @ region config)
             (say ''Please create node group manually:''
                (say (''Could not check/create node groups: '' @ message error) w1))))"

text \<open>The loop that waits for a ready node: sixty polls, ten seconds apart.\<close>

definition nodes_not_ready :: js_error where
  "nodes_not_ready =
     Error ''Nodes did not become ready after 10 minutes. Please check node group status manually.''"

function waitForNodes :: "env \<Rightarrow> nat \<Rightarrow> world \<Rightarrow> (js_error + unit) \<times> world" where
  "waitForNodes env i w =
     (if i < 60 then
        (case exec env GetReadyNodesCount (sleep 10000 w) of
           (Inl error, w1) \<Rightarrow> (Inl error, w1)
         | (Inr readyNodes, w1) \<Rightarrow>
             (let readyCount = parseInt_or0 (trim readyNodes)
              in if readyCount > 0
                 then (Inr (), say (decimal (nat readyCount) @ '' node(s) are now ready!'') w1)
                 else waitForNodes env (Suc i)
                        (say_if (i mod 3 = 0 \<and> i > 0)
                           (''Still waiting for nodes... ('' @ decimal ((i + 1) * 10) @ ''s elapsed)'')
                           w1)))
      else (Inl nodes_not_ready, w))"
  by pat_completeness auto
termination
  by (relation "measure (\<lambda>(env, i, w). 60 - i)") auto

declare waitForNodes.simps [simp del]

text \<open>
  \<open>checkAndEnsureNodes_try\<close> is the body of the outer \<open>try\<close> of
  \<open>checkAndEnsureNodes\<close>, the function itself adds the \<open>catch\<close>.
\<close>

definition checkAndEnsureNodes_try ::
  "env \<Rightarrow> deploy_config \<Rightarrow> world \<Rightarrow> (js_error + unit) \<times> world" where
  "checkAndEnsureNodes_try env config w =
     (case exec env GetNodesCount w of
        (Inl error, w1) \<Rightarrow> (Inl error, w1)
      | (Inr nodesResult, w1) \<Rightarrow>
          (let nodeCount = parseInt_or0 (trim nodesResult);
               checked =
                 (if nodeCount > 0 then
                    (case exec env GetReadyNodesCount w1 of
                       (Inl error, w2) \<Rightarrow> (Inl error, w2)
                     | (Inr readyNodes, w2) \<Rightarrow>
                         (let readyCount = parseInt_or0 (trim readyNodes)
                          in if readyCount > 0
                             then (Inr True,
                                   say (''Cluster has '' @ decimal (nat readyCount) @ '' ready node(s)'') w2)
                             else (Inr False,
                                   say (''Cluster has '' @ decimal (nat nodeCount) @
                                        '' node(s) but none are Ready'') w2)))
                  else (Inr False, say ''No nodes found in cluster. Checking node groups...'' w1))
           in (case checked of
                 (Inl error, w3) \<Rightarrow> (Inl error, w3)
               | (Inr True, w3) \<Rightarrow> (Inr (), w3)
               | (Inr False, w3) \<Rightarrow>
                   (case ensureNodeGroup env config w3 of
                      (Inl error, w4) \<Rightarrow> (Inl error, w4)
                    | (Inr u, w4) \<Rightarrow>
                        waitForNodes env 0 (say ''Waiting for nodes to be ready...'' w4)))))"

definition checkAndEnsureNodes ::
  "env \<Rightarrow> deploy_config \<Rightarrow> world \<Rightarrow> (js_error + unit) \<times> world" where
  "checkAndEnsureNodes env config w =
     (case checkAndEnsureNodes_try env config w of
        (Inr u, w1) \<Rightarrow> (Inr (), w1)
      | (Inl error, w1) \<Rightarrow>
          (if str_includes (message error) ''Nodes did not become ready''
           then (Inl error, w1)
           else (Inr (), say (''Could not ensure nodes: '' @ message error) w1)))"

section \<open>Sequencing\<close>

text \<open>
  \<open>and_then m f\<close> is "await \<open>m\<close>, then go on with \<open>f\<close>": an error thrown by \<open>m\<close>
  is the result, and \<open>f\<close> does not run. \<open>helper\<close> calls a function that is modelled
  by its interface; \<open>quiet_helper\<close> calls one that catches every error of its own
  (its whole body is a \<open>try\<close> whose \<open>catch\<close> does not rethrow), so that only its
  step of the world remains.
\<close>

definition and_then ::
  "(js_error + 'a) \<times> world \<Rightarrow> ('a \<Rightarrow> world \<Rightarrow> (js_error + 'b) \<times> world) \<Rightarrow> (js_error + 'b) \<times> world" where
  "and_then m f = (case m of (Inl e, w) \<Rightarrow> (Inl e, w) | (Inr a, w) \<Rightarrow> f a w)"

definition helper :: "env \<Rightarrow> string \<Rightarrow> world \<Rightarrow> (js_error + string) \<times> world" where
  "helper env name w = exec env (Helper name) w"

definition quiet_helper :: "env \<Rightarrow> string \<Rightarrow> world \<Rightarrow> world" where
  "quiet_helper env name w = snd (exec env (Helper name) w)"

section \<open>Installing the load-balancer controller\<close>

text \<open>
  The loop of \<open>checkAndInstallALBController\<close> that waits for the controller after
  \<open>helm upgrade --install\<close>: thirty polls, ten seconds apart; \<open>Inr True\<close> is the
  \<open>return\<close> inside the loop, after \<open>waitForALBWebhookReady(90)\<close>.
\<close>

function waitForController :: "env \<Rightarrow> nat \<Rightarrow> world \<Rightarrow> (js_error + bool) \<times> world" where
  "waitForController env i w =
     (if i < 30 then
        (case exec env GetALBReadyReplicas (sleep 10000 w) of
           (Inl error, w1) \<Rightarrow> (Inl error, w1)
         | (Inr statusResult, w1) \<Rightarrow>
             (if trim statusResult = ''1'' \<or> trim statusResult = ''2''
              then and_then (waitForALBWebhookReady env 90
                               (say ''AWS Load Balancer Controller is ready'' w1))
                     (\<lambda>ready w2. (Inr True, w2))
              else waitForController env (Suc i) w1))
      else (Inr False, w))"
  by pat_completeness auto
termination
  by (relation "measure (\<lambda>(env, i, w). 30 - i)") auto

declare waitForController.simps [simp del]

text \<open>
  The \<open>try\<close> around the installation, without its \<open>catch\<close>;
  \<open>installALBController_timedOut\<close> is the \<open>catch\<close> of the \<open>helm install --wait\<close>
  inside it.
\<close>

definition installALBController_timedOut ::
  "env \<Rightarrow> deploy_config \<Rightarrow> world \<Rightarrow> (js_error + unit) \<times> world" where
  "installALBController_timedOut env config w =
     and_then (exec env GetALBDeploymentJson
                 (say ''Install with --wait timed out, checking status...'' w)) (\<lambda>checkResult w1.
       if \<not> str_includes checkResult ''not found'' \<and> trim checkResult \<noteq> []
       then (Inr (), say ''AWS Load Balancer Controller is installing (may take a few minutes)'' w1)
       else
         and_then (exec env (HelmUpgradeInstall (clusterName config))
                     (say ''Trying upgrade/install without wait...'' w1)) (\<lambda>out w2.
         and_then (waitForController env 0
                     (say ''AWS Load Balancer Controller installation initiated'' w2)) (\<lambda>returned w3.
           if returned then (Inr (), w3)
           else and_then (waitForALBWebhookReady env 90
                            (say ''ALB Controller is still starting. Waiting for webhook...'' w3))
                  (\<lambda>ready w4. (Inr (), w4)))))"

definition installALBController_try ::
  "env \<Rightarrow> deploy_config \<Rightarrow> world \<Rightarrow> (js_error + unit) \<times> world" where
  "installALBController_try env config w =
     and_then (exec env (CreateIAMServiceAccount (clusterName config) (region config)) w) (\<lambda>out w1.
     and_then (case exec env HelmVersion w1 of
                 (Inr out, w2) \<Rightarrow> (Inr out, w2)
               | (Inl error, w2) \<Rightarrow>
                   exec env BrewInstallHelm (say ''Helm not found. Installing Helm...'' w2)) (\<lambda>out w3.
     and_then (exec env HelmRepoAdd w3) (\<lambda>out w4.
     and_then (exec env HelmRepoUpdate w4) (\<lambda>out w5.
       (case exec env (HelmInstall (clusterName config)) w5 of
          (Inr out, w6) \<Rightarrow> (Inr (), say ''AWS Load Balancer Controller installed'' w6)
        | (Inl error, w6) \<Rightarrow> installALBController_timedOut env config w6)))))"

definition checkAndInstallALBController_try ::
  "env \<Rightarrow> deploy_config \<Rightarrow> world \<Rightarrow> (js_error + unit) \<times> world" where
  "checkAndInstallALBController_try env config w =
     and_then (exec env GetALBDeploymentJson w) (\<lambda>result w1.
       if str_includes result ''not found'' \<or> trim result = [] then
         (case installALBController_try env config
                 (say ''AWS Load Balancer Controller not found. Installing...'' w1) of
            (Inr u, w2) \<Rightarrow> (Inr (), w2)
          | (Inl error, w2) \<Rightarrow>
              (Inl error,
               say (''Failed to install ALB Controller automatically: '' @ message error) w2))
       else
         and_then (waitForALBWebhookReady env 90
                     (quiet_helper env ''checkAndFixALBIAMPermissions''
                        (say ''AWS Load Balancer Controller already installed'' w1)))
           (\<lambda>ready w2. (Inr (), w2)))"

definition checkAndInstallALBController ::
  "env \<Rightarrow> deploy_config \<Rightarrow> world \<Rightarrow> (js_error + unit) \<times> world" where
  "checkAndInstallALBController env config w =
     (case checkAndInstallALBController_try env config w of
        (Inr u, w1) \<Rightarrow> (Inr (), w1)
      | (Inl error, w1) \<Rightarrow> (Inr (), say ''Could not check ALB Controller status'' w1))"

section \<open>Applying the manifests\<close>

text \<open>\<open>path.join\<close> of a directory and a file name; \<open>fs.existsSync\<close>.\<close>

definition path_join :: "string \<Rightarrow> string \<Rightarrow> string" where
  "path_join dir name = dir @ ''/'' @ name"

definition existsSync :: "env \<Rightarrow> string \<Rightarrow> world \<Rightarrow> bool \<times> world" where
  "existsSync env file w =
     (case exec env (FsExists file) w of
        (Inr out, w1) \<Rightarrow> (out \<noteq> [], w1)
      | (Inl error, w1) \<Rightarrow> (False, w1))"

definition applyManifests_try ::
  "env \<Rightarrow> deploy_config \<Rightarrow> string \<Rightarrow> world \<Rightarrow> (js_error + unit) \<times> world" where
  "applyManifests_try env config manifestsDir w =
     (let w1 = (case namespace config of
                  None \<Rightarrow> w
                | Some ns \<Rightarrow>
                    if ns \<noteq> [] \<and> ns \<noteq> ''default''
                    then snd (exec env (CreateNamespace ns) w) else w)
      in
      and_then (case secrets config of
                  None \<Rightarrow> (Inr [], w1)
                | Some kvs \<Rightarrow>
                    if length kvs > 0 then
                      (case existsSync env (path_join manifestsDir ''secrets.yaml'') w1 of
                         (True, w2) \<Rightarrow> exec env (KubectlApply (path_join manifestsDir ''secrets.yaml'')) w2
                       | (False, w2) \<Rightarrow> (Inr [], w2))
                    else (Inr [], w1)) (\<lambda>out w3.
      and_then (exec env (KubectlApply (path_join manifestsDir ''deployment.yaml'')) w3) (\<lambda>out w4.
      and_then (if enableIngress config = Some True
                then applyWithRetry env (KubectlApply (path_join manifestsDir ''service.yaml'')) 15 10000 w4
                else and_then (exec env (KubectlApply (path_join manifestsDir ''service.yaml'')) w4)
                       (\<lambda>out w5. (Inr (), w5))) (\<lambda>u w6.
      and_then (case autoscaling config of
                  None \<Rightarrow> (Inr [], w6)
                | Some (enabled, minReplicas, maxReplicas) \<Rightarrow>
                    if enabled then
                      (case existsSync env (path_join manifestsDir ''hpa.yaml'') w6 of
                         (True, w7) \<Rightarrow> exec env (KubectlApply (path_join manifestsDir ''hpa.yaml'')) w7
                       | (False, w7) \<Rightarrow> (Inr [], w7))
                    else (Inr [], w6)) (\<lambda>out w8.
        if enableIngress config = Some True
        then applyWithRetry env (KubectlApply (path_join manifestsDir ''ingress.yaml'')) 15 10000 w8
        else (Inr (), w8))))))"

definition applyManifests ::
  "env \<Rightarrow> deploy_config \<Rightarrow> string \<Rightarrow> world \<Rightarrow> (js_error + unit) \<times> world" where
  "applyManifests env config manifestsDir w =
     (case applyManifests_try env config manifestsDir w of
        (Inr u, w1) \<Rightarrow> (Inr (), w1)
      | (Inl error, w1) \<Rightarrow> (Inl (Error (''Failed to apply manifests: '' @ message error)), w1))"

section \<open>Waiting for the load balancer, the certificate and the DNS record\<close>

definition hostname_of :: "domain_config \<Rightarrow> string" where
  "hostname_of d =
     (case subdomain d of
        None \<Rightarrow> dc_domain d
      | Some sub \<Rightarrow> if sub \<noteq> [] then sub @ ''.'' @ dc_domain d else dc_domain d)"

definition ingress_of :: "deploy_config \<Rightarrow> string" where
  "ingress_of config = appName config @ ''-ingress''"

definition hasCloudflare :: "domain_config \<Rightarrow> bool" where
  "hasCloudflare d = (cloudflareApiToken d \<noteq> [] \<and> cloudflareZoneId d \<noteq> [])"

text \<open>
  The check for certificate errors inside the loop that waits for the load balancer:
  it may set \<open>certificateError\<close>, strip the certificate annotations and reset
  \<open>retries\<close> to 30. Its result is the new \<open>retries\<close> and \<open>certificateError\<close>.
\<close>

definition certificate_event :: "k8s_event \<Rightarrow> bool" where
  "certificate_event e =
     (ev_type e = ''Warning'' \<and>
      (ev_reason e = ''FailedDeployModel'' \<or> ev_reason e = ''FailedBuildModel'') \<and>
      (case ev_message e of None \<Rightarrow> False | Some m \<Rightarrow> str_includes m ''Certificate''))"

definition checkCertificateEvents ::
  "env \<Rightarrow> deploy_config \<Rightarrow> nat \<Rightarrow> bool \<Rightarrow> world \<Rightarrow> nat \<times> bool \<times> world" where
  "checkCertificateEvents env config retries certificateError w =
     (case exec env (GetIngressEventsJson (ingress_of config) (namespace_or_default config)) w of
        (Inl error, w1) \<Rightarrow> (retries, certificateError, w1)
      | (Inr events, w1) \<Rightarrow>
          (case parse_events env events of
             Inl error \<Rightarrow> (retries, certificateError, w1)
           | Inr None \<Rightarrow> (retries, certificateError, w1)
           | Inr (Some items) \<Rightarrow>
               (let failedEvents = filter certificate_event items
                in if length failedEvents > 0 \<and>
                      (case ev_message (last failedEvents) of
                         None \<Rightarrow> False
                       | Some m \<Rightarrow> str_includes m ''Certificate ARN'' \<or>
                                   str_includes m ''UnsupportedCertificate'')
                   then
                     (case exec env (AnnotateIngress (ingress_of config) (namespace_or_default config)
                                       ''alb.ingress.kubernetes.io/certificate-arn-'')
                             (say ''Certificate Error Detected!'' w1) of
                        (Inl error, w2) \<Rightarrow>
                          (retries, True, say ''Could not remove certificate annotation automatically'' w2)
                      | (Inr out, w2) \<Rightarrow>
                          (case exec env (AnnotateIngress (ingress_of config) (namespace_or_default config)
                                            ''alb.ingress.kubernetes.io/ssl-redirect-'') w2 of
                             (Inl error, w3) \<Rightarrow>
                               (retries, True,
                                say ''Could not remove certificate annotation automatically'' w3)
                           | (Inr out, w3) \<Rightarrow>
                               (30, True, say ''Removed invalid certificate annotation'' w3)))
                   else (retries, certificateError, w1))))"

text \<open>
  The loop \<open>while (retries > 0 && !albDNS)\<close>. Because the check above can reset
  \<open>retries\<close> in every iteration, the loop need not end: not returning is \<open>None\<close>.
  The result is \<open>albDNS\<close> and \<open>certificateError\<close>.
\<close>

partial_function (option) waitForALB ::
  "env \<Rightarrow> deploy_config \<Rightarrow> nat \<Rightarrow> bool \<Rightarrow> world \<Rightarrow> (string option \<times> bool \<times> world) option" where
  [code]: "waitForALB env config retries certificateError w =
     (if retries > 0 then
        (case exec env (GetIngressJson (ingress_of config) (namespace_or_default config)) w of
           (Inl error, w1) \<Rightarrow>
             waitForALB env config (retries - 1) certificateError (sleep 10000 w1)
         | (Inr ingressInfo, w1) \<Rightarrow>
             (case parse_ingress env ingressInfo of
                Inl error \<Rightarrow>
                  waitForALB env config (retries - 1) certificateError (sleep 10000 w1)
              | Inr hostname \<Rightarrow>
                  if truthy hostname then Some (hostname, certificateError, w1)
                  else (case checkCertificateEvents env config retries certificateError w1 of
                          (retries1, certificateError1, w2) \<Rightarrow>
                            waitForALB env config (retries1 - 1) certificateError1 (sleep 10000 w2))))
      else Some (None, certificateError, w))"

text \<open>What the function reports when the loop ended without a host name.\<close>

definition permission_event :: "k8s_event \<Rightarrow> bool" where
  "permission_event e = (ev_type e = ''Warning'' \<and> ev_reason e = ''FailedBuildModel'')"

definition reportALBPending :: "env \<Rightarrow> deploy_config \<Rightarrow> world \<Rightarrow> world" where
  "reportALBPending env config w =
     (case exec env (GetIngressEventsJson (ingress_of config) (namespace_or_default config))
             (say ''ALB is still being provisioned. This can take 5-10 minutes.'' w) of
        (Inl error, w1) \<Rightarrow> w1
      | (Inr ingressEvents, w1) \<Rightarrow>
          (case parse_events env ingressEvents of
             Inl error \<Rightarrow> w1
           | Inr None \<Rightarrow> w1
           | Inr (Some items) \<Rightarrow>
               (let failedEvents = filter permission_event items
                in say_if (length failedEvents > 0 \<and>
                           (case ev_message (last failedEvents) of
                              None \<Rightarrow> False
                            | Some m \<Rightarrow> str_includes m ''UnauthorizedOperation'' \<or>
                                        str_includes m ''not authorized''))
                     ''ALB Controller IAM Permission Issue Detected!'' w1)))"

text \<open>
  The three annotations that switch the ingress to HTTPS with the certificate \<open>arn\<close>
  (the source writes them out in each of the three places that use them).
\<close>

definition enableHTTPS :: "env \<Rightarrow> deploy_config \<Rightarrow> string \<Rightarrow> world \<Rightarrow> (js_error + unit) \<times> world" where
  "enableHTTPS env config arn w =
     and_then (exec env (AnnotateIngress (ingress_of config) (namespace_or_default config)
                           ''alb.ingress.kubernetes.io/listen-ports=[{HTTP: 80}, {HTTPS: 443}]'') w) (\<lambda>out w1.
     and_then (exec env (AnnotateIngress (ingress_of config) (namespace_or_default config)
                           (''alb.ingress.kubernetes.io/certificate-arn='' @ arn)) w1) (\<lambda>out w2.
     and_then (exec env (AnnotateIngress (ingress_of config) (namespace_or_default config)
                           ''alb.ingress.kubernetes.io/ssl-redirect=443'') w2) (\<lambda>out w3.
       (Inr (), w3))))"

text \<open>
  The loop that waits for the validation of the configured certificate (status
  \<open>PENDING_VALIDATION\<close> at first): sixty polls, ten seconds apart. The result is the
  flag \<open>validated\<close>. The progress dots the loop writes without a line break are not
  recorded.
\<close>

definition listener_notice :: string where
  "listener_notice = ''ALB Controller will update the listener. This may take 2-3 minutes.''"

function waitForValidation ::
  "env \<Rightarrow> deploy_config \<Rightarrow> string \<Rightarrow> nat \<Rightarrow> world \<Rightarrow> (js_error + bool) \<times> world" where
  "waitForValidation env config arn waitRetries w =
     (if waitRetries > 0 then
        (case exec env (AcmDescribeCertificate arn) (sleep 10000 w) of
           (Inl error, w1) \<Rightarrow> (Inl error, w1)
         | (Inr certStatusValue, w1) \<Rightarrow>
             (if certStatusValue = ''ISSUED'' then
                and_then (enableHTTPS env config arn
                            (say ''Enabling HTTPS...'' (say ''Certificate validated successfully!'' w1)))
                  (\<lambda>u w2. (Inr True, say listener_notice (say ''HTTPS enabled with SSL redirect'' w2)))
              else if certStatusValue = ''FAILED'' \<or> certStatusValue = ''VALIDATION_TIMED_OUT'' then
                (Inr False,
                 say ''Will attempt to request new certificate...''
                   (say (''Certificate validation failed. Status: '' @ certStatusValue) w1))
              else waitForValidation env config arn (waitRetries - 1) w1))
      else (Inr False, w))"
  by pat_completeness auto
termination
  by (relation "measure (\<lambda>(env, config, arn, waitRetries, w). waitRetries)") auto

declare waitForValidation.simps [simp del]

text \<open>
  The same loop for a newly requested certificate. When the certificate is issued the
  loop stores its ARN in \<open>config.domain.certificateARN\<close>, so the configuration is part
  of the result.
\<close>

definition set_certificateARN :: "string \<Rightarrow> deploy_config \<Rightarrow> deploy_config" where
  "set_certificateARN arn config =
     config\<lparr>domain := map_option (\<lambda>d. d\<lparr>certificateARN := Some arn\<rparr>) (domain config)\<rparr>"

function waitForNewCertificate ::
  "env \<Rightarrow> deploy_config \<Rightarrow> string \<Rightarrow> nat \<Rightarrow> world \<Rightarrow> (js_error + bool) \<times> deploy_config \<times> world" where
  "waitForNewCertificate env config newCertificateARN waitRetries w =
     (if waitRetries > 0 then
        (case exec env (AcmDescribeCertificate newCertificateARN) (sleep 10000 w) of
           (Inl error, w1) \<Rightarrow> (Inl error, config, w1)
         | (Inr certStatusValue, w1) \<Rightarrow>
             (if certStatusValue = ''ISSUED'' then
                (case enableHTTPS env (set_certificateARN newCertificateARN config) newCertificateARN
                        (say ''Enabling HTTPS with new certificate...''
                           (say ''Certificate validated successfully!'' w1)) of
                   (Inl error, w2) \<Rightarrow> (Inl error, set_certificateARN newCertificateARN config, w2)
                 | (Inr u, w2) \<Rightarrow>
                     (Inr True, set_certificateARN newCertificateARN config,
                      say listener_notice (say ''HTTPS enabled with new certificate'' w2)))
              else if certStatusValue = ''FAILED'' \<or> certStatusValue = ''VALIDATION_TIMED_OUT'' then
                (Inr False, config,
                 say (''Certificate validation failed again. Status: '' @ certStatusValue) w1)
              else waitForNewCertificate env config newCertificateARN (waitRetries - 1) w1))
      else (Inr False, config, w))"
  by pat_completeness auto
termination
  by (relation "measure (\<lambda>(env, config, newCertificateARN, waitRetries, w). waitRetries)") auto

declare waitForNewCertificate.simps [simp del]

text \<open>
  The branches of the certificate check, by the status first read:
  \<open>certificate_issued\<close>, \<open>certificate_pending\<close> and \<open>certificate_failed\<close> (which
  requests a new certificate); \<open>checkCertificate\<close> is the whole \<open>try\<close> with its
  \<open>catch\<close>. \<open>still_validating\<close> is the report of a wait that ended without an issued
  certificate.
\<close>

definition toLowerCase :: "string \<Rightarrow> string" where
  "toLowerCase s =
     map (\<lambda>c. let n = (of_char c :: nat) in if 65 \<le> n \<and> n \<le> 90 then char_of (n + 32) else c) s"

definition still_validating :: "deploy_config \<Rightarrow> string \<Rightarrow> world \<Rightarrow> world" where
  "still_validating config arn w =
     say (''You can check status: aws acm describe-certificate --certificate-arn '' @ arn @
          '' --region '' @ region config)
       (say ''HTTPS will be enabled automatically once validation completes.''
          (say (''Certificate ARN: '' @ arn)
             (say ''Certificate validation is taking longer than expected.'' w)))"

definition certificate_issued ::
  "env \<Rightarrow> deploy_config \<Rightarrow> string \<Rightarrow> world \<Rightarrow> world" where
  "certificate_issued env config arn w =
     (case and_then (enableHTTPS env config arn (say ''Certificate is validated, enabling HTTPS...'' w))
             (\<lambda>u w1. helper env ''setupCloudflareDNS''
                        (say listener_notice (say ''HTTPS enabled with SSL redirect'' w1))) of
        (Inl error, w2) \<Rightarrow> say ''Could not enable HTTPS automatically'' w2
      | (Inr out, w2) \<Rightarrow> w2)"

definition certificate_pending ::
  "env \<Rightarrow> deploy_config \<Rightarrow> domain_config \<Rightarrow> string \<Rightarrow> world \<Rightarrow> (js_error + unit) \<times> world" where
  "certificate_pending env config d arn w =
     (let w1 = say ''Certificate is pending validation. Setting up validation and waiting...'' w
      in if hasCloudflare d then
           and_then (waitForValidation env config arn 60
                       (say ''Waiting for certificate validation (this may take 5-10 minutes)...''
                          (quiet_helper env ''setupCertificateValidation''
                             (say ''Setting up certificate validation DNS records...'' w1))))
             (\<lambda>validated w2.
                (Inr (), if \<not> validated then still_validating config arn w2 else w2))
         else (Inr (),
               say ''Please manually validate certificate in ACM console''
                 (say ''Cloudflare credentials not available. Cannot auto-validate certificate.'' w1)))"

definition certificate_failed ::
  "env \<Rightarrow> deploy_config \<Rightarrow> domain_config \<Rightarrow> string \<Rightarrow> world \<Rightarrow> deploy_config \<times> world" where
  "certificate_failed env config d status w =
     (case exec env (AcmRequestCertificate (hostname_of d))
             (quiet_helper env ''ensureCAAForACM''
                (say (''Requesting new ACM certificate for '' @ hostname_of d @ ''...'')
                   (say (''Certificate '' @ toLowerCase status @
                         ''. Auto-requesting new certificate...'') w))) of
        (Inl error, w1) \<Rightarrow>
          (config,
           say ''Please manually request certificate in ACM console''
             (say (''Could not auto-request certificate: '' @ message error) w1))
      | (Inr newCertificateARN, w1) \<Rightarrow>
          (if newCertificateARN \<noteq> [] then
             (if hasCloudflare d then
                (case waitForNewCertificate env config newCertificateARN 60
                        (say ''Waiting for certificate validation (this may take 5-10 minutes)...''
                           (quiet_helper env ''setupCertificateValidation''
                              (say ''Setting up DNS validation records...''
                                 (say (''New certificate requested: '' @ newCertificateARN) w1)))) of
                   (Inl error, config1, w2) \<Rightarrow>
                     (config1,
                      say ''Please manually request certificate in ACM console''
                        (say (''Could not auto-request certificate: '' @ message error) w2))
                 | (Inr validated, config1, w2) \<Rightarrow>
                     (config1,
                      if \<not> validated then still_validating config1 newCertificateARN w2 else w2))
              else
                (config,
                 say (''Please manually validate certificate: '' @ newCertificateARN)
                   (say ''Cloudflare credentials not available. Cannot auto-validate certificate.''
                      (say (''New certificate requested: '' @ newCertificateARN) w1))))
           else (config, w1)))"

definition checkCertificate ::
  "env \<Rightarrow> deploy_config \<Rightarrow> domain_config \<Rightarrow> string \<Rightarrow> world \<Rightarrow> deploy_config \<times> world" where
  "checkCertificate env config d arn w =
     (case exec env (AcmDescribeCertificate arn) w of
        (Inl error, w1) \<Rightarrow> (config, say ''Could not check certificate status'' w1)
      | (Inr status, w1) \<Rightarrow>
          (if status = ''ISSUED'' then (config, certificate_issued env config arn w1)
           else if status = ''PENDING_VALIDATION'' then
             (case certificate_pending env config d arn w1 of
                (Inl error, w2) \<Rightarrow> (config, say ''Could not check certificate status'' w2)
              | (Inr u, w2) \<Rightarrow> (config, w2))
           else if status = ''VALIDATION_TIMED_OUT'' \<or> status = ''FAILED'' then
             certificate_failed env config d status w1
           else (config,
                 say ''HTTPS will be enabled automatically once certificate is validated.''
                   (say (''Certificate status: '' @ status @ ''. Using HTTP only for now.'') w1))))"

text \<open>The Cloudflare record at the end, in its own \<open>try\<close>.\<close>

definition setupDNSRecord :: "env \<Rightarrow> bool \<Rightarrow> world \<Rightarrow> world" where
  "setupDNSRecord env certificateError w =
     (case helper env ''setupCloudflareDNS'' (say ''Setting up Cloudflare CNAME record...'' w) of
        (Inl error, w1) \<Rightarrow> say (''Could not setup DNS automatically: '' @ message error) w1
      | (Inr out, w1) \<Rightarrow>
          say_if certificateError
            ''Note: ALB was created without SSL certificate due to certificate validation error.''
            (say ''DNS configuration completed!'' w1))"

definition waitForIngressAndSetupDNS ::
  "env \<Rightarrow> deploy_config \<Rightarrow> world \<Rightarrow> ((js_error + string option) \<times> deploy_config \<times> world) option" where
  "waitForIngressAndSetupDNS env config w =
     (case domain config of
        None \<Rightarrow> Some (Inr None, config, w)
      | Some d \<Rightarrow>
          (case waitForALB env config 60 False (say ''Waiting for ALB to be provisioned...'' w) of
             None \<Rightarrow> None
           | Some (None, certificateError, w1) \<Rightarrow>
               Some (Inr None, config, reportALBPending env config w1)
           | Some (Some albDNS, certificateError, w1) \<Rightarrow>
               (case (if enableSSL d \<and> truthy (certificateARN d)
                      then (case certificateARN d of
                              None \<Rightarrow> (config, say (''ALB DNS: '' @ albDNS) w1)
                            | Some arn \<Rightarrow> checkCertificate env config d arn
                                           (say (''ALB DNS: '' @ albDNS) w1))
                      else (config, say (''ALB DNS: '' @ albDNS) w1)) of
                  (config1, w2) \<Rightarrow>
                    Some (Inr (Some albDNS), config1, setupDNSRecord env certificateError w2))))"

section \<open>The deployment pipeline\<close>

text \<open>
  \<open>deployToEKS\<close> of \<open>deploy.ts\<close>, step by step as the source announces them. A
  step that only reads the configuration returns its result and the world; the two
  places of the pipeline that assign to the configuration return it as well, also when
  an error leaves the pipeline: the caller's \<open>config\<close> object keeps what was written to
  it. Manifest texts are generated by pure functions and written with
  \<open>fs.writeFile\<close>, named here by the file.
\<close>

definition artifactsDir :: "env \<Rightarrow> string" where
  "artifactsDir env = path_join (cwd env) ''ekspressjs''"

definition manifestsDir :: "env \<Rightarrow> string" where
  "manifestsDir env = path_join (artifactsDir env) ''k8s''"

definition deployToEKS_step1 :: "env \<Rightarrow> deploy_config \<Rightarrow> world \<Rightarrow> (js_error + unit) \<times> world" where
  "deployToEKS_step1 env config w =
     (let w1 = quiet_helper env ''validateProjectStructure''
                 (say (''Using artifacts directory: '' @ artifactsDir env) w)
      in
      and_then (if appType config = ''next'' then helper env ''createNextConfigIfNeeded'' w1
                else (Inr [], w1)) (\<lambda>out w2.
      and_then (exec env (FsWriteFile (path_join (artifactsDir env) ''Dockerfile''))
                  (say ''Step 1: Generating Dockerfile...'' w2)) (\<lambda>out w3.
        (Inr (), say ''Dockerfile generated'' w3))))"

text \<open>
  The domain part of step 2: \<open>setupDomain\<close> (which catches its own errors) returns a
  certificate ARN or \<open>null\<close>, and the pipeline stores it in the configuration when the
  configuration has none.
\<close>

definition deployToEKS_setupDomain :: "env \<Rightarrow> deploy_config \<Rightarrow> world \<Rightarrow> deploy_config \<times> world" where
  "deployToEKS_setupDomain env config w =
     (case domain config of
        None \<Rightarrow> (config, w)
      | Some d \<Rightarrow>
          if enableSSL d then
            (case helper env ''setupDomain'' (say ''Setting up domain and SSL certificate...'' w) of
               (Inl error, w1) \<Rightarrow> (config, w1)
             | (Inr arn, w1) \<Rightarrow>
                 (if arn \<noteq> [] \<and> \<not> truthy (certificateARN d)
                  then (set_certificateARN arn config, w1)
                  else (config, w1)))
          else (config, w))"

definition deployToEKS_step2 :: "env \<Rightarrow> deploy_config \<Rightarrow> world \<Rightarrow> (js_error + unit) \<times> world" where
  "deployToEKS_step2 env config w =
     and_then (exec env (FsEnsureDir (manifestsDir env)) w) (\<lambda>out w1.
     and_then (exec env (FsWriteFile (path_join (manifestsDir env) ''deployment.yaml'')) w1) (\<lambda>out w2.
     and_then (exec env (FsWriteFile (path_join (manifestsDir env) ''service.yaml'')) w2) (\<lambda>out w3.
     and_then (case secrets config of
                 None \<Rightarrow> (Inr (), w3)
               | Some kvs \<Rightarrow>
                   if length kvs > 0
                   then and_then (exec env (FsWriteFile (path_join (manifestsDir env) ''secrets.yaml'')) w3)
                          (\<lambda>out w4. (Inr (), say ''Secrets manifest generated'' w4))
                   else (Inr (), w3)) (\<lambda>out w5.
     and_then (case autoscaling config of
                 None \<Rightarrow> (Inr (), w5)
               | Some (enabled, minReplicas, maxReplicas) \<Rightarrow>
                   if enabled
                   then and_then (exec env (FsWriteFile (path_join (manifestsDir env) ''hpa.yaml'')) w5)
                          (\<lambda>out w6. (Inr (), say ''Autoscaling manifest generated'' w6))
                   else (Inr (), w5)) (\<lambda>out w7.
     and_then (if enableIngress config = Some True
               then and_then (exec env (FsWriteFile (path_join (manifestsDir env) ''ingress.yaml'')) w7)
                      (\<lambda>out w8. (Inr (), say ''Ingress manifest generated'' w8))
               else (Inr (), w7)) (\<lambda>out w9.
       (Inr (), say ''Kubernetes manifests generated'' w9)))))))"

definition deployToEKS_step3 :: "env \<Rightarrow> deploy_config \<Rightarrow> world \<Rightarrow> (js_error + unit) \<times> world" where
  "deployToEKS_step3 env config w =
     and_then (helper env ''configureAWS'' (say ''Step 3: Configuring AWS credentials...'' w))
       (\<lambda>out w1. (Inr (), say ''AWS credentials configured'' w1))"

definition deployToEKS_step4 :: "env \<Rightarrow> deploy_config \<Rightarrow> world \<Rightarrow> (js_error + unit) \<times> world" where
  "deployToEKS_step4 env config w =
     and_then (helper env ''setupKubectl'' (say ''Step 4: Setting up kubectl...'' w))
       (\<lambda>out w1. (Inr (), say ''kubectl configured'' w1))"

definition deployToEKS_step4_1 :: "env \<Rightarrow> deploy_config \<Rightarrow> world \<Rightarrow> (js_error + unit) \<times> world" where
  "deployToEKS_step4_1 env config w =
     and_then (checkAndEnsureNodes env config (say ''Step 4.1: Checking cluster nodes...'' w))
       (\<lambda>u w1. (Inr (), say ''Cluster nodes ready'' w1))"

definition deployToEKS_step4_5 :: "env \<Rightarrow> deploy_config \<Rightarrow> world \<Rightarrow> (js_error + unit) \<times> world" where
  "deployToEKS_step4_5 env config w =
     (if enableIngress config = Some True then
        and_then (checkAndInstallALBController env config
                    (say ''Step 4.5: Checking ALB Controller...'' w)) (\<lambda>u w1.
          (Inr (), quiet_helper env ''checkAndFixALBIAMPermissions''
                     (sleep 5000 (say ''Verifying ALB Controller IAM permissions...''
                        (say ''ALB Controller ready'' w1)))))
      else (Inr (), w))"

definition deployToEKS_step5 :: "env \<Rightarrow> deploy_config \<Rightarrow> world \<Rightarrow> (js_error + unit) \<times> world" where
  "deployToEKS_step5 env config w =
     and_then (helper env ''buildAndPushImage''
                 (say ''Step 5: Building and pushing Docker image...'' w)) (\<lambda>imageUri w1.
       if imageUri \<noteq> []
       then and_then (exec env (FsWriteFile (path_join (manifestsDir env) ''deployment.yaml''))
                        (say (''Image built and pushed: '' @ imageUri) w1))
              (\<lambda>out w2. (Inr (), w2))
       else (Inr (), say ''Image built and pushed: null'' w1))"

definition deployToEKS_step5_5 :: "env \<Rightarrow> deploy_config \<Rightarrow> world \<Rightarrow> (js_error + unit) \<times> world" where
  "deployToEKS_step5_5 env config w =
     (case imageRegistry config of
        None \<Rightarrow> (Inr (), w)
      | Some registry \<Rightarrow>
          if registry \<noteq> [] \<and> str_includes registry ''amazonaws.com''
          then (Inr (), say ''ECR ImagePullSecret configured''
                          (quiet_helper env ''setupECRImagePullSecret''
                             (say ''Step 5.5: Setting up ECR ImagePullSecret...'' w)))
          else (Inr (), w))"

definition deployToEKS_step6 :: "env \<Rightarrow> deploy_config \<Rightarrow> world \<Rightarrow> (js_error + unit) \<times> world" where
  "deployToEKS_step6 env config w =
     and_then (applyManifests env config (manifestsDir env)
                 (say ''Step 6: Deploying to EKS cluster...'' w))
       (\<lambda>u w1. (Inr (), say ''Deployment applied to cluster'' w1))"

definition deployToEKS_step7 :: "env \<Rightarrow> deploy_config \<Rightarrow> world \<Rightarrow> (js_error + unit) \<times> world" where
  "deployToEKS_step7 env config w =
     (case exec env (RolloutStatus (appName config) (namespace_or_default config) 300)
             (say ''Step 7: Waiting for deployment to be ready...'' w) of
        (Inr out, w1) \<Rightarrow> (Inr (), say ''Deployment is ready!'' w1)
      | (Inl error, w1) \<Rightarrow>
          (case exec env (RolloutStatus (appName config) (namespace_or_default config) 120)
                  (sleep 10000
                     (quiet_helper env ''checkAndFixImagePullError''
                        (say ''Deployment not ready yet. Checking for image pull errors...'' w1))) of
             (Inr out, w2) \<Rightarrow> (Inr (), say ''Deployment is ready after fix!'' w2)
           | (Inl retryError, w2) \<Rightarrow>
               and_then (diagnoseDeploymentFailure env config
                           (say ''Deployment failed or timed out. Running diagnostics...'' w2))
                 (\<lambda>u w3. (Inl retryError, w3))))"

text \<open>Steps 2 to 7 after the domain part: none of them assigns to the configuration.\<close>

definition deployToEKS_steps2to7 :: "env \<Rightarrow> deploy_config \<Rightarrow> world \<Rightarrow> (js_error + unit) \<times> world" where
  "deployToEKS_steps2to7 env config w =
     and_then (deployToEKS_step2 env config w) (\<lambda>u w1.
     and_then (deployToEKS_step3 env config w1) (\<lambda>u w2.
     and_then (deployToEKS_step4 env config w2) (\<lambda>u w3.
     and_then (deployToEKS_step4_1 env config w3) (\<lambda>u w4.
     and_then (deployToEKS_step4_5 env config w4) (\<lambda>u w5.
     and_then (deployToEKS_step5 env config w5) (\<lambda>u w6.
     and_then (deployToEKS_step5_5 env config w6) (\<lambda>u w7.
     and_then (deployToEKS_step6 env config w7) (\<lambda>u w8.
       deployToEKS_step7 env config w8))))))))"

text \<open>
  The DNS part: \<open>waitForIngressAndSetupDNS\<close> inside a \<open>try\<close>. The result is
  \<open>albDNS\<close> and the configuration as that function left it.
\<close>

definition deployToEKS_dns ::
  "env \<Rightarrow> deploy_config \<Rightarrow> world \<Rightarrow> (string option \<times> deploy_config \<times> world) option" where
  "deployToEKS_dns env config w =
     (if domain config \<noteq> None \<and> enableIngress config = Some True then
        (case waitForIngressAndSetupDNS env config w of
           None \<Rightarrow> None
         | Some (Inl error, config1, w1) \<Rightarrow>
             Some (None, config1, say ''Could not setup DNS automatically'' w1)
         | Some (Inr albDNS, config1, w1) \<Rightarrow> Some (albDNS, config1, w1))
      else Some (None, config, w))"

text \<open>Step 8 reads the service and, with ingress enabled, reads \<open>albDNS\<close> again.\<close>

definition deployToEKS_step8 ::
  "env \<Rightarrow> deploy_config \<Rightarrow> string option \<Rightarrow> world \<Rightarrow> string option \<times> world" where
  "deployToEKS_step8 env config albDNS w =
     (case exec env (GetServiceJson (appName config @ ''-service'') (namespace_or_default config))
             (say ''Step 8: Getting service information...'' w) of
        (Inl error, w1) \<Rightarrow> (albDNS, say ''Could not retrieve service information'' w1)
      | (Inr serviceInfo, w1) \<Rightarrow>
          (case parse_service env serviceInfo of
             Inl error \<Rightarrow> (albDNS, say ''Could not retrieve service information'' w1)
           | Inr (name, ns, kind) \<Rightarrow>
               (let w2 = say (''Type: '' @ kind) (say (''Namespace: '' @ ns) (say (''Name: '' @ name) w1))
                in if enableIngress config = Some True then
                     (case exec env (GetIngressJson (ingress_of config) (namespace_or_default config)) w2 of
                        (Inl error, w3) \<Rightarrow> (albDNS, say ''Could not retrieve ingress information'' w3)
                      | (Inr ingressInfo, w3) \<Rightarrow>
                          (case parse_ingress env ingressInfo of
                             Inl error \<Rightarrow> (albDNS, say ''Could not retrieve ingress information'' w3)
                           | Inr hostname \<Rightarrow>
                               (if truthy hostname then (hostname, say ''Ingress:'' w3)
                                else (None, say ''Ingress:'' w3))))
                   else (albDNS, w2))))"

definition deployToEKS_summary ::
  "env \<Rightarrow> deploy_config \<Rightarrow> string option \<Rightarrow> world \<Rightarrow> world" where
  "deployToEKS_summary env config albDNS w =
     (let w1 = say ''Deployment completed successfully!'' w
      in if enableIngress config = Some True \<and> truthy albDNS then
           quiet_helper env ''checkAppHealth''
             (say ''Checking application health...''
                (snd (exec env (GetIngressListenPorts (ingress_of config) (namespace_or_default config)) w1)))
         else if enableIngress config = Some True then
           say_if (domain config \<noteq> None) ''ALB is still being provisioned. Please wait 5-10 minutes.'' w1
         else say ''Ingress not enabled. Access via port-forward:'' w1)"

definition deployToEKS ::
  "env \<Rightarrow> deploy_config \<Rightarrow> world \<Rightarrow> ((js_error + unit) \<times> deploy_config \<times> world) option" where
  "deployToEKS env config w =
     (case exec env (FsEnsureDir (artifactsDir env)) (say ''Starting deployment process...'' w) of
        (Inl error, w1) \<Rightarrow> Some (Inl error, config, w1)
      | (Inr out, w1) \<Rightarrow>
          (let config1 = config\<lparr>artifactDir := Some (artifactsDir env)\<rparr>
           in (case deployToEKS_step1 env config1 w1 of
                 (Inl error, w2) \<Rightarrow> Some (Inl error, config1, w2)
               | (Inr u, w2) \<Rightarrow>
                   (case deployToEKS_setupDomain env config1
                           (say ''Step 2: Generating Kubernetes manifests...'' w2) of
                      (config2, w3) \<Rightarrow>
                        (case deployToEKS_steps2to7 env config2 w3 of
                           (Inl error, w4) \<Rightarrow> Some (Inl error, config2, w4)
                         | (Inr u, w4) \<Rightarrow>
                             (case deployToEKS_dns env config2 w4 of
                                None \<Rightarrow> None
                              | Some (albDNS, config3, w5) \<Rightarrow>
                                  (case deployToEKS_step8 env config3 albDNS w5 of
                                     (albDNS1, w6) \<Rightarrow>
                                       Some (Inr (), config3,
                                             deployToEKS_summary env config3 albDNS1 w6))))))))"

section \<open>Example worlds and environments\<close>

definition world0 :: world where
  "world0 = \<lparr>now = 0, calls = 0, slept = 0, trace = []\<rparr>"

text \<open>
  \<open>env0\<close>: every command succeeds at once and prints nothing, no JSON text has
  items. The other environments change its \<open>shell\<close>.
\<close>

definition env0 :: env where
  "env0 = \<lparr>shell = (\<lambda>k c. Inr []), took = (\<lambda>k. 0), parse_pods = (\<lambda>t. Inr None),
            parse_nodegroups = (\<lambda>t. Inr []), parse_ingress = (\<lambda>t. Inr None),
            parse_events = (\<lambda>t. Inr None),
            parse_service = (\<lambda>t. Inr (''web-service'', ''default'', ''ClusterIP'')),
            cwd = ''/home/app''\<rparr>"

definition env_replicas :: "nat \<Rightarrow> env" where
  "env_replicas n = env0\<lparr>shell := (\<lambda>k c. Inr (decimal n))\<rparr>"

text \<open>
  \<open>webhook_error\<close> is the failure of \<open>kubectl apply\<close> while the controller's
  webhook has no endpoints. In \<open>env_never_ready\<close> every apply fails so, the readiness
  queries print nothing and no command takes time. In \<open>env_webhook_race\<close> the pod and
  the deployment are ready from the start and the endpoint list is empty for the first
  three polls. In \<open>env_apply_refused\<close> every command fails with another error.
\<close>

definition webhook_error :: js_error where
  "webhook_error = Error (''Error from server (InternalError): '' @ webhook_needle)"

definition env_never_ready :: env where
  "env_never_ready =
     env0\<lparr>shell := (\<lambda>k c. case c of KubectlApply f \<Rightarrow> Inl webhook_error | _ \<Rightarrow> Inr [])\<rparr>"

definition env_webhook_race :: env where
  "env_webhook_race =
     env0\<lparr>shell := (\<lambda>k c. case c of
                 GetALBPodPhase \<Rightarrow> Inr ''Running''
               | GetALBReadyReplicas \<Rightarrow> Inr ''1''
               | GetWebhookEndpoints \<Rightarrow> (if k < 9 then Inr [] else Inr ''10.0.1.17'')
               | _ \<Rightarrow> Inr [])\<rparr>"

definition connection_refused :: js_error where
  "connection_refused = Error ''The connection to the server was refused''"

definition env_apply_refused :: env where
  "env_apply_refused =
     env0\<lparr>shell := (\<lambda>k c. Inl connection_refused)\<rparr>"

text \<open>
  In \<open>env_pod_stops\<close> the pod is running and the deployment ready only when first
  asked (commands 0 and 1); afterwards the pod is \<open>Pending\<close> and no replica is ready;
  the endpoint list fills from command 3 on.
\<close>

definition env_pod_stops :: env where
  "env_pod_stops =
     env0\<lparr>shell := (\<lambda>k c. case c of
                 GetALBPodPhase \<Rightarrow> (if k = 0 then Inr ''Running'' else Inr ''Pending'')
               | GetALBReadyReplicas \<Rightarrow> (if k = 1 then Inr ''1'' else Inr ''0'')
               | GetWebhookEndpoints \<Rightarrow> (if k < 3 then Inr [] else Inr ''10.0.1.17'')
               | _ \<Rightarrow> Inr [])\<rparr>"

text \<open>
  \<open>config0\<close> deploys the application \<open>web\<close> with no optional setting. In
  \<open>env_pod_found\<close> the newest pod is \<open>web-5d7\<close> and every command succeeds; in
  \<open>env_describe_fails\<close> describing that pod fails.
\<close>

definition config0 :: deploy_config where
  "config0 =
     \<lparr>appType = ''nest'', appName = ''web'', port = 3000, replicas = 1, region = ''us-east-1'',
      clusterName = ''demo'', accessKeyId = ''AKIA'', secretAccessKey = ''secret'',
      imageRegistry = None, namespace = None, enableIngress = None, domain = None,
      resources = None, autoscaling = None, envVars = None, secrets = None, configMaps = None,
      healthCheckPath = None, enableMetrics = None, artifactDir = None\<rparr>"

definition env_describe_fails :: env where
  "env_describe_fails =
     env0\<lparr>shell := (\<lambda>k c. case c of
                 GetNewestPodName ns app \<Rightarrow> Inr ''web-5d7''
               | DescribePodEvents pod ns \<Rightarrow> Inl connection_refused
               | _ \<Rightarrow> Inr [])\<rparr>"

definition env_pod_found :: env where
  "env_pod_found =
     env0\<lparr>shell := (\<lambda>k c. case c of GetNewestPodName ns app \<Rightarrow> Inr ''web-5d7'' | _ \<Rightarrow> Inr [])\<rparr>"


text \<open>
  In \<open>env_already_deleted\<close> the deployment is reported as not found and deleting the
  ingress fails for another reason; the other deletions succeed.
\<close>

definition not_found_error :: js_error where
  "not_found_error = Error ''Error from server (NotFound): deployments.apps web not found''"

definition env_already_deleted :: env where
  "env_already_deleted =
     env0\<lparr>shell := (\<lambda>k c. case c of
                 KubectlDelete kind name ns \<Rightarrow>
                   (if kind = ''deployment'' then Inl not_found_error
                    else if kind = ''ingress'' then Inl connection_refused else Inr [])
               | _ \<Rightarrow> Inr [])\<rparr>"


text \<open>
  In \<open>env_create_fails\<close> the cluster has no node and no node group, and creating the
  default node group fails.
\<close>

definition env_create_fails :: env where
  "env_create_fails =
     env0\<lparr>shell := (\<lambda>k c. case c of
                 GetNodesCount \<Rightarrow> Inr ''0''
               | CreateNodeGroup cluster reg \<Rightarrow> Inl connection_refused
               | _ \<Rightarrow> Inr [])\<rparr>"


text \<open>
  \<open>config_domain\<close> adds to \<open>config0\<close> an ingress and the domain \<open>app.example.com\<close>
  with the certificate \<open>arn0\<close> and Cloudflare credentials. In
  \<open>env_validation_times_out\<close> the certificate is pending validation when first
  described (command 0) and in the first five polls of the wait (commands 2 to 6, command 1
  being the set-up of the validation records), and has status \<open>VALIDATION_TIMED_OUT\<close>
  from then on; a request for a new certificate would be granted.
\<close>

definition arn0 :: string where
  "arn0 = ''arn:aws:acm:us-east-1:111122223333:certificate/c0''"

definition domain0 :: domain_config where
  "domain0 = \<lparr>dc_domain = ''example.com'', subdomain = Some ''app'', enableSSL = True,
               certificateARN = Some arn0, cloudflareApiToken = ''token'',
               cloudflareZoneId = ''zone''\<rparr>"

definition config_domain :: deploy_config where
  "config_domain = config0\<lparr>enableIngress := Some True, domain := Some domain0\<rparr>"

definition env_validation_times_out :: env where
  "env_validation_times_out =
     env0\<lparr>shell := (\<lambda>k c. case c of
                 AcmDescribeCertificate arn \<Rightarrow>
                   (if k < 7 then Inr ''PENDING_VALIDATION'' else Inr ''VALIDATION_TIMED_OUT'')
               | AcmRequestCertificate hostname \<Rightarrow> Inr ''arn:aws:acm:us-east-1:111122223333:certificate/c1''
               | _ \<Rightarrow> Inr [])\<rparr>"

section \<open>What a run observes\<close>

text \<open>
  The three facts a readiness poll asks for, read off the environment's answer to the
  \<open>k\<close>-th command: the controller pod is running, the controller deployment is
  ready, the webhook service has an endpoint address. \<open>webhook_unavailable\<close> says
  that an apply failed for want of webhook endpoints. \<open>probes\<close> counts the readiness
  polls of a run (each starts with one pod-phase query); \<open>quiet\<close> relates two worlds
  between which the program neither slept nor polled.
\<close>

definition pod_running_at :: "env \<Rightarrow> nat \<Rightarrow> bool" where
  "pod_running_at env k =
     (case shell env k GetALBPodPhase of Inr t \<Rightarrow> trim t = ''Running'' | Inl e \<Rightarrow> False)"

definition deployment_ready_at :: "env \<Rightarrow> nat \<Rightarrow> bool" where
  "deployment_ready_at env k =
     (case shell env k GetALBReadyReplicas of
        Inr t \<Rightarrow> trim t = ''1'' \<or> trim t = ''2'' | Inl e \<Rightarrow> False)"

definition endpoints_present_at :: "env \<Rightarrow> nat \<Rightarrow> bool" where
  "endpoints_present_at env k =
     (case shell env k GetWebhookEndpoints of Inr t \<Rightarrow> trim t \<noteq> [] | Inl e \<Rightarrow> False)"

definition poll_sees_ready :: "env \<Rightarrow> nat \<Rightarrow> bool" where
  "poll_sees_ready env k =
     (pod_running_at env k \<and> deployment_ready_at env (k + 1) \<and> endpoints_present_at env (k + 2))"

definition webhook_unavailable :: "js_error + string \<Rightarrow> bool" where
  "webhook_unavailable r =
     (case r of Inl e \<Rightarrow> str_includes (errorMessage_of e) webhook_needle | Inr out \<Rightarrow> False)"

definition probes :: "world \<Rightarrow> nat" where
  "probes w = count_list (trace w) (Exec GetALBPodPhase)"

definition quiet :: "world \<Rightarrow> world \<Rightarrow> bool" where
  "quiet w w' = (slept w' = slept w \<and> now w \<le> now w' \<and> probes w' = probes w)"

text \<open>\<open>new_events w w'\<close> is what a run from \<open>w\<close> to \<open>w'\<close> added to the trace.\<close>

definition new_events :: "world \<Rightarrow> world \<Rightarrow> event list" where
  "new_events w w' = drop (length (trace w)) (trace w')"

text \<open>
  One iteration of the loop of \<open>waitForALBWebhookReady\<close> in its three stages: the pod
  probe, the deployment probe (each made only while its flag is unset) and the endpoint
  query (made when both flags are set).
\<close>

definition stage_pod :: "env \<Rightarrow> bool \<Rightarrow> world \<Rightarrow> bool \<times> world" where
  "stage_pod env podReady w =
     (if \<not> podReady
      then (case checkALBPodReady env w of
              (r, w') \<Rightarrow> (r, say_if r ''ALB Controller pod is running'' w'))
      else (podReady, w))"

definition stage_deployment :: "env \<Rightarrow> bool \<Rightarrow> world \<Rightarrow> bool \<times> world" where
  "stage_deployment env deploymentReady w =
     (if \<not> deploymentReady
      then (case checkALBDeploymentReady env w of
              (r, w') \<Rightarrow> (r, say_if r ''ALB Controller deployment is ready'' w'))
      else (deploymentReady, w))"

definition stage_endpoints :: "env \<Rightarrow> bool \<Rightarrow> bool \<Rightarrow> world \<Rightarrow> bool \<times> world" where
  "stage_endpoints env podReady deploymentReady w =
     (if podReady \<and> deploymentReady
      then (case exec env GetWebhookEndpoints w of
              (Inr endpointsResult, w') \<Rightarrow> (trim endpointsResult \<noteq> [], w')
            | (Inl error, w') \<Rightarrow> (False, w'))
      else (False, w))"

text \<open>\<open>commands\<close> are the external commands of a trace, in the order they ran.\<close>

fun commands :: "event list \<Rightarrow> cmd list" where
  "commands [] = []"
| "commands (Exec c # es) = c # commands es"
| "commands (e # es) = commands es"


text \<open>
  \<open>requested w\<close> lists the certificate requests (\<open>RequestCertificateCommand\<close>) made
  so far.
\<close>

fun is_request :: "cmd \<Rightarrow> bool" where
  "is_request (AcmRequestCertificate hostname) = True"
| "is_request c = False"

definition requested :: "world \<Rightarrow> cmd list" where
  "requested w = filter is_request (commands (trace w))"

section \<open>Properties\<close>

subsection \<open>Characters and numerals\<close>

lemma lt10_cases:
  "d < (10::nat) \<Longrightarrow> d = 0 \<or> d = 1 \<or> d = 2 \<or> d = 3 \<or> d = 4 \<or> d = 5 \<or> d = 6 \<or> d = 7 \<or> d = 8 \<or> d = 9"
  by arith

lemma digit_eq_1: "d < 10 \<Longrightarrow> digit d = CHR ''1'' \<longleftrightarrow> d = 1"
  using lt10_cases [of d] by (auto simp: digit_def)

lemma digit_eq_2: "d < 10 \<Longrightarrow> digit d = CHR ''2'' \<longleftrightarrow> d = 2"
  using lt10_cases [of d] by (auto simp: digit_def)

lemma digit_not_space: "d < 10 \<Longrightarrow> \<not> is_space (digit d)"
  using lt10_cases [of d] by (auto simp: digit_def is_space_def)

lemma decimal_length2: "10 \<le> n \<Longrightarrow> 2 \<le> length (decimal n)"
  by (subst decimal.simps) (simp, subst decimal.simps, simp)

lemma decimal_eq_1: "decimal n = ''1'' \<longleftrightarrow> n = 1"
proof (cases "n < 10")
  case True
  then show ?thesis by (simp add: decimal.simps digit_eq_1)
next
  case False
  then have "2 \<le> length (decimal n)" by (simp add: decimal_length2)
  with False show ?thesis by auto
qed

lemma decimal_eq_2: "decimal n = ''2'' \<longleftrightarrow> n = 2"
proof (cases "n < 10")
  case True
  then show ?thesis by (simp add: decimal.simps digit_eq_2)
next
  case False
  then have "2 \<le> length (decimal n)" by (simp add: decimal_length2)
  with False show ?thesis by auto
qed

lemma decimal_nonempty: "decimal n \<noteq> []"
  by (subst decimal.simps) simp

lemma decimal_hd: "\<not> is_space (hd (decimal n))"
proof (induction n rule: decimal.induct)
  case (1 n)
  show ?case
  proof (cases "n < 10")
    case True
    then show ?thesis by (subst decimal.simps) (simp add: digit_not_space)
  next
    case False
    with 1 show ?thesis by (subst decimal.simps) (simp add: decimal_nonempty)
  qed
qed

lemma decimal_last: "\<not> is_space (last (decimal n))"
  by (subst decimal.simps) (simp add: digit_not_space)

lemma dropWhile_spaces:
  "\<forall>c \<in> set pre. is_space c \<Longrightarrow> dropWhile is_space (pre @ s) = dropWhile is_space s"
  by (induction pre) simp_all

lemma trim_padded:
  assumes "s \<noteq> []" "\<not> is_space (hd s)" "\<not> is_space (last s)"
    and "\<forall>c \<in> set pre. is_space c" "\<forall>c \<in> set post. is_space c"
  shows "trim (pre @ s @ post) = s"
proof -
  have a: "dropWhile is_space (pre @ s @ post) = s @ post"
    using assms by (cases s) (simp_all add: dropWhile_spaces)
  have "dropWhile is_space (rev post @ rev s) = dropWhile is_space (rev s)"
    using assms by (intro dropWhile_spaces) simp
  also have "\<dots> = rev s"
    using assms by (cases s rule: rev_cases) simp_all
  finally show ?thesis by (simp add: trim_def a)
qed

lemma trim_spaces:
  assumes "\<forall>c \<in> set s. is_space c"
  shows "trim s = []"
proof -
  have d: "dropWhile is_space s = []" using assms by simp
  show ?thesis unfolding trim_def d by simp
qed

lemma trim_decimal:
  "\<forall>c \<in> set pre. is_space c \<Longrightarrow> \<forall>c \<in> set post. is_space c \<Longrightarrow>
   trim (pre @ decimal n @ post) = decimal n"
  by (rule trim_padded) (simp_all add: decimal_nonempty decimal_hd decimal_last)

subsection \<open>Commands, sleeps and reported lines\<close>

lemma sleep_simps [simp]:
  "now (sleep ms w) = now w + ms" "slept (sleep ms w) = slept w + ms"
  "calls (sleep ms w) = calls w" "trace (sleep ms w) = trace w @ [Sleep ms]"
  by (simp_all add: sleep_def)

lemma say_simps [simp]:
  "now (say l w) = now w" "slept (say l w) = slept w"
  "calls (say l w) = calls w" "trace (say l w) = trace w @ [Log l]"
  by (simp_all add: say_def)

lemma say_if_simps [simp]:
  "now (say_if b l w) = now w" "slept (say_if b l w) = slept w"
  "calls (say_if b l w) = calls w"
  by (simp_all add: say_if_def)

lemma probes_simps [simp]:
  "probes (say l w) = probes w" "probes (say_if b l w) = probes w"
  "probes (sleep ms w) = probes w"
  "probes (snd (exec env c w)) = (if c = GetALBPodPhase then Suc (probes w) else probes w)"
  by (simp_all add: probes_def say_if_def exec_def)

lemma exec_simps [simp]:
  "fst (exec env c w) = shell env (calls w) c"
  "now (snd (exec env c w)) = now w + took env (calls w)"
  "slept (snd (exec env c w)) = slept w"
  "calls (snd (exec env c w)) = Suc (calls w)"
  "trace (snd (exec env c w)) = trace w @ [Exec c]"
  by (simp_all add: exec_def)

lemma quiet_refl [simp]: "quiet w w"
  by (simp add: quiet_def)

lemma quiet_trans: "quiet w w' \<Longrightarrow> quiet w' w'' \<Longrightarrow> quiet w w''"
  by (simp add: quiet_def)

lemma quiet_say [simp]: "quiet w (say l w')  = quiet w w'" "quiet w (say_if b l w') = quiet w w'"
  by (simp_all add: quiet_def)

lemma quiet_exec: "c \<noteq> GetALBPodPhase \<Longrightarrow> quiet w (snd (exec env c w))"
  by (simp add: quiet_def)

lemma exec_quiet: "exec env c w = (r, w1) \<Longrightarrow> c \<noteq> GetALBPodPhase \<Longrightarrow> quiet w w1"
  by (auto simp: quiet_def exec_def probes_def)

lemma getALBPodStatus_quiet: "quiet w (snd (getALBPodStatus env w))"
proof -
  obtain r w1 where e: "exec env GetALBPodsJson w = (r, w1)" by (cases "exec env GetALBPodsJson w")
  from exec_quiet [OF e] show ?thesis
    by (simp add: getALBPodStatus_def e split: sum.splits option.splits list.splits)
qed

lemma diag_podStatus_quiet: "quiet w (diag_podStatus env w)"
proof -
  obtain r w1 where g: "getALBPodStatus env w = (r, w1)" by (cases "getALBPodStatus env w")
  then have "quiet w w1" using getALBPodStatus_quiet [of w env] by simp
  then show ?thesis
    by (simp add: diag_podStatus_def g Let_def split: option.splits)
qed

lemma diag_podDetails_quiet: "quiet w (diag_podDetails env w)"
proof -
  obtain r w1 where e: "exec env GetALBPodsWide w = (r, w1)" by (cases "exec env GetALBPodsWide w")
  from exec_quiet [OF e] show ?thesis
    by (simp add: diag_podDetails_def e split: sum.splits)
qed

lemma diag_logs_quiet: "quiet w (diag_logs env w)"
proof -
  obtain r w1 where e: "exec env GetALBLogs w = (r, w1)" by (cases "exec env GetALBLogs w")
  from exec_quiet [OF e] show ?thesis
    by (simp add: diag_logs_def e split: sum.splits)
qed

lemma diag_events_quiet: "quiet w (diag_events env w)"
proof -
  obtain r w1 where e: "exec env GetKubeSystemEvents w = (r, w1)" by (cases "exec env GetKubeSystemEvents w")
  from exec_quiet [OF e] show ?thesis
    by (simp add: diag_events_def e split: sum.splits)
qed

lemma diag_nodes_quiet: "quiet w (diag_nodes env w)"
proof -
  obtain r w1 where e: "exec env GetNodes w = (r, w1)" by (cases "exec env GetNodes w")
  from exec_quiet [OF e] show ?thesis
    by (simp add: diag_nodes_def e Let_def split: sum.splits)
qed

lemma diag_nodeResources_quiet: "quiet w (diag_nodeResources env w)"
proof -
  obtain r w1 where e: "exec env TopNodes w = (r, w1)" by (cases "exec env TopNodes w")
  from exec_quiet [OF e] show ?thesis
    by (simp add: diag_nodeResources_def e split: sum.splits)
qed

lemma diag_nodeGroups_quiet: "quiet w (diag_nodeGroups env w)"
proof -
  obtain r w1 where e: "exec env GetNodeGroupsText w = (r, w1)" by (cases "exec env GetNodeGroupsText w")
  from exec_quiet [OF e] show ?thesis
    by (simp add: diag_nodeGroups_def e split: sum.splits)
qed

lemma diag_commonIssues_quiet: "quiet w (diag_commonIssues env w)"
proof -
  obtain r w1 where g: "getALBPodStatus env (say ''Common issues and solutions:'' w) = (r, w1)"
    by (cases "getALBPodStatus env (say ''Common issues and solutions:'' w)")
  then have "quiet (say ''Common issues and solutions:'' w) w1"
    using getALBPodStatus_quiet [of "say ''Common issues and solutions:'' w" env] by simp
  then have "quiet w w1" by (simp add: quiet_def)
  then show ?thesis
    by (simp add: diag_commonIssues_def g)
qed

lemma showALBDiagnostics_quiet: "quiet w (snd (showALBDiagnostics env w))"
proof -
  have "quiet w (say ''ALB Controller Diagnostics:'' w)" by simp
  then show ?thesis
    unfolding showALBDiagnostics_def Let_def snd_conv
    by (intro quiet_trans [OF _ diag_commonIssues_quiet] quiet_trans [OF _ diag_nodeGroups_quiet]
        quiet_trans [OF _ diag_nodeResources_quiet] quiet_trans [OF _ diag_nodes_quiet]
        quiet_trans [OF _ diag_events_quiet] quiet_trans [OF _ diag_logs_quiet]
        quiet_trans [OF _ diag_podDetails_quiet] quiet_trans [OF _ diag_podStatus_quiet])
qed

lemma showALBDiagnostics_returns: "fst (showALBDiagnostics env w) = Inr ()"
  by (simp add: showALBDiagnostics_def Let_def)


lemma exec_world:
  assumes "exec env c w = (x, w1)"
  shows "x = shell env (calls w) c" "slept w1 = slept w" "now w \<le> now w1"
    "probes w1 = (if c = GetALBPodPhase then Suc (probes w) else probes w)"
  using assms by (auto simp: exec_def probes_def)

lemma str_includes_self: "str_includes t t"
  by (cases t) simp_all

lemma str_includes_append: "str_includes (p @ t) t"
  by (induction p) (simp_all add: str_includes_self)

lemma errorMessage_of_Error [simp]: "errorMessage_of (Error m) = m"
  by (simp add: errorMessage_of_def Error_def truthy_def)

lemma webhook_error_includes: "str_includes (errorMessage_of webhook_error) webhook_needle"
  unfolding webhook_error_def errorMessage_of_Error by (rule str_includes_append)

lemma commands_append [simp]: "commands (xs @ ys) = commands xs @ commands ys"
  by (induction xs rule: commands.induct) simp_all

lemma commands_trace_simps [simp]:
  "commands (trace (say l w)) = commands (trace w)"
  "commands (trace (say_if b l w)) = commands (trace w)"
  "commands (trace (sleep ms w)) = commands (trace w)"
  "commands (trace (snd (exec env c w))) = commands (trace w) @ [c]"
  by (simp_all add: say_def say_if_def sleep_def exec_def)

lemma exec_ran:
  "exec env c w = (r, w1) \<Longrightarrow> commands (trace w1) = commands (trace w) @ [c] \<and> calls w1 = Suc (calls w)
     \<and> r = shell env (calls w) c"
  by (auto simp: exec_def)

subsection \<open>The controller-deployment probe\<close>


lemma decimal_3: "decimal 3 = ''3''"
  by (simp add: decimal.simps digit_def)




subsection \<open>Webhook readiness\<close>

lemma checkWebhookReady_iff:
  "fst (checkWebhookReady env w) = poll_sees_ready env (calls w)"
  by (simp add: checkWebhookReady_def checkALBPodReady_def checkALBDeploymentReady_def exec_def
      poll_sees_ready_def pod_running_at_def deployment_ready_at_def endpoints_present_at_def
      split: sum.splits)

lemma checkWebhookReady_calls:
  "calls (snd (checkWebhookReady env w)) =
     (if pod_running_at env (calls w) \<and> deployment_ready_at env (calls w + 1)
      then calls w + 3 else calls w + 2)"
  by (simp add: checkWebhookReady_def checkALBPodReady_def checkALBDeploymentReady_def exec_def
      pod_running_at_def deployment_ready_at_def split: sum.splits)

lemma wait_ready_observed:
  "applyWithRetry_wait env m t s j w = (True, w') \<Longrightarrow>
   \<exists>k\<ge>calls w. poll_sees_ready env k \<and> calls w' = k + 3"
proof (induction env m t s j w rule: applyWithRetry_wait.induct)
  case (1 env m t s j w)
  obtain r w1 where cw: "checkWebhookReady env w = (r, w1)"
    by (cases "checkWebhookReady env w")
  from "1.prems" have c1: "j < m div 3"
    and c2: "\<not> maxTotalWait \<le> t + (now w - s) div 1000"
    by (auto simp: applyWithRetry_wait.simps [of env m t s j w] Let_def split: if_splits)
  show ?case
  proof (cases r)
    case True
    with "1.prems" cw c1 c2 have w': "w' = sleep 2000 (say ''Webhook is ready, retrying apply...'' w1)"
      by (simp add: applyWithRetry_wait.simps [of env m t s j w] Let_def)
    from cw True have "poll_sees_ready env (calls w)"
      using checkWebhookReady_iff [of env w] by simp
    moreover from this cw have "calls w1 = calls w + 3"
      using checkWebhookReady_calls [of env w] by (simp add: poll_sees_ready_def)
    ultimately show ?thesis using w' by auto
  next
    case False
    with "1.prems" cw c1 c2
    have rec: "applyWithRetry_wait env m t s (Suc j) (sleep 3000 w1) = (True, w')"
      by (simp add: applyWithRetry_wait.simps [of env m t s j w] Let_def)
    from "1.IH" [OF c1 refl c2 cw [symmetric] _ rec] False
    obtain k where k: "calls (sleep 3000 w1) \<le> k" "poll_sees_ready env k" "calls w' = k + 3"
      by auto
    from cw have "calls w \<le> calls w1"
      using checkWebhookReady_calls [of env w] by (simp split: if_splits)
    with k show ?thesis by auto
  qed
qed


lemma env_webhook_race_poll:
  "checkWebhookReady env_webhook_race w =
     (9 \<le> calls w + 2,
      w\<lparr>now := now w, calls := calls w + 3,
        trace := trace w @ [Exec GetALBPodPhase, Exec GetALBReadyReplicas, Exec GetWebhookEndpoints]\<rparr>)"
  by (simp add: checkWebhookReady_def checkALBPodReady_def checkALBDeploymentReady_def exec_def
      env_webhook_race_def env0_def trim_def is_space_def)

lemma env_webhook_race_wait:
  "fst (applyWithRetry_wait env_webhook_race 60 0 0 0 world0) \<and>
   calls (snd (applyWithRetry_wait env_webhook_race 60 0 0 0 world0)) = 12"
  by (simp add: applyWithRetry_wait.simps env_webhook_race_poll world0_def maxTotalWait_def
      sleep_def say_def)

lemma env_webhook_race_seen:
  "deployment_ready_at env_webhook_race 1 \<and> \<not> endpoints_present_at env_webhook_race 2 \<and>
   pod_running_at env_webhook_race 9 \<and> deployment_ready_at env_webhook_race 10 \<and>
   endpoints_present_at env_webhook_race 11"
  by (simp add: pod_running_at_def deployment_ready_at_def endpoints_present_at_def
      env_webhook_race_def env0_def trim_def is_space_def)


subsection \<open>Errors that are not retried\<close>

text \<open>
  C9. When the apply command fails with an error whose message (as the code reads it:
  \<open>error.message\<close>, or the captured output when that is empty) does not contain the
  webhook text, the retry loop ends at once, in any of its iterations: the result is
  that same error, and the world is the one right after the failed command, with no
  sleep, no poll and no further attempt.
\<close>

theorem applyWithRetry_rethrows_other_errors:
  assumes "shell env (calls w) command = Inl error"
    and "\<not> str_includes (errorMessage_of error) webhook_needle"
  shows "(i < maxRetries \<longrightarrow>
            applyWithRetry_loop env command maxRetries maxWaitPerRetry startTime i w =
              (Inl error, snd (exec env command w))) \<and>
         (0 < maxRetries \<longrightarrow>
            applyWithRetry env command maxRetries maxWaitPerRetry w =
              (Inl error, snd (exec env command w)))"
  using assms
  by (simp add: applyWithRetry_def applyWithRetry_loop.simps [of env command maxRetries _ _ _ w]
      exec_def Let_def)


lemma connection_refused_other:
  "\<not> str_includes (errorMessage_of connection_refused) webhook_needle"
  by (simp add: connection_refused_def webhook_needle_def)

theorem applyWithRetry_rethrows_other_errors_witness:
  "shell env_apply_refused (calls world0) (KubectlApply ''ingress.yaml'') = Inl connection_refused \<and>
   \<not> str_includes (errorMessage_of connection_refused) webhook_needle \<and>
   applyWithRetry env_apply_refused (KubectlApply ''ingress.yaml'') 15 10000 world0 =
     (Inl connection_refused,
      \<lparr>now = 0, calls = 1, slept = 0, trace = [Exec (KubectlApply ''ingress.yaml'')]\<rparr>)"
  using applyWithRetry_rethrows_other_errors [of env_apply_refused world0 "KubectlApply ''ingress.yaml''"
      connection_refused 0 15 10000 0]
  by (simp add: connection_refused_other) (simp add: env_apply_refused_def env0_def world0_def exec_def)

subsection \<open>The bounds of the retry loop\<close>

lemma checkWebhookReady_quiet:
  assumes "checkWebhookReady env w = (r, w1)"
  shows "slept w1 = slept w \<and> now w \<le> now w1 \<and> probes w1 = Suc (probes w)"
  using assms
  by (auto simp: checkWebhookReady_def checkALBPodReady_def checkALBDeploymentReady_def exec_def
      probes_def split: sum.splits if_splits)

lemma elapsed_below:
  fixes a b :: nat
  shows "a div 1000 + b div 1000 < 300 \<Longrightarrow> a + b < 301000"
  by arith

lemma wait_bound:
  assumes "applyWithRetry_wait env m t s j w = (r, w')"
    and "slept w + st \<le> S0 + now w" and "slept w < S0 + 304000"
    and "t = (s - st) div 1000" and "st \<le> s" and "s \<le> now w"
  shows "slept w' + st \<le> S0 + now w' \<and> slept w' < S0 + 304000 \<and> now w \<le> now w'"
  using assms
proof (induction env m t s j w rule: applyWithRetry_wait.induct)
  case (1 env m t s j w)
  note run = "1.prems"(1) and inv = "1.prems"(2-6)
  show ?case
  proof (cases "j < m div 3 \<and> \<not> maxTotalWait \<le> t + (now w - s) div 1000")
    case False
    with run have "w' = w \<or> w' = say ''Max total wait time reached (300s), retrying anyway...'' w"
      by (auto simp: applyWithRetry_wait.simps [of env m t s j w] Let_def split: if_splits)
    with inv show ?thesis by auto
  next
    case True
    then have c1: "j < m div 3" and c2: "\<not> maxTotalWait \<le> t + (now w - s) div 1000" by auto
    obtain b w1 where cw: "checkWebhookReady env w = (b, w1)"
      by (cases "checkWebhookReady env w")
    note q = checkWebhookReady_quiet [OF cw]
    from c2 inv have "(s - st) + (now w - s) < 301000"
      by (intro elapsed_below) (simp add: maxTotalWait_def)
    with inv have near: "now w < st + 301000" by simp
    with inv have sl: "slept w < S0 + 301000" by simp
    show ?thesis
    proof (cases b)
      case True
      with run cw c1 c2 have "w' = sleep 2000 (say ''Webhook is ready, retrying apply...'' w1)"
        by (simp add: applyWithRetry_wait.simps [of env m t s j w] Let_def)
      with q sl inv show ?thesis by simp
    next
      case False
      with run cw c1 c2
      have rec: "applyWithRetry_wait env m t s (Suc j) (sleep 3000 w1) = (r, w')"
        by (simp add: applyWithRetry_wait.simps [of env m t s j w] Let_def)
      have "slept w' + st \<le> S0 + now w' \<and> slept w' < S0 + 304000 \<and>
            now (sleep 3000 w1) \<le> now w'"
        using q sl inv False
        by (intro "1.IH" [OF c1 refl c2 cw [symmetric] _ rec]) simp_all
      with q show ?thesis by simp
    qed
  qed
qed

lemma wait_probes:
  "applyWithRetry_wait env m t s j w = (r, w') \<Longrightarrow> probes w' \<le> probes w + (m div 3 - j)"
proof (induction env m t s j w rule: applyWithRetry_wait.induct)
  case (1 env m t s j w)
  show ?case
  proof (cases "j < m div 3 \<and> \<not> maxTotalWait \<le> t + (now w - s) div 1000")
    case False
    with "1.prems" have "w' = w \<or> w' = say ''Max total wait time reached (300s), retrying anyway...'' w"
      by (auto simp: applyWithRetry_wait.simps [of env m t s j w] Let_def split: if_splits)
    then show ?thesis by auto
  next
    case True
    then have c1: "j < m div 3" and c2: "\<not> maxTotalWait \<le> t + (now w - s) div 1000" by auto
    obtain b w1 where cw: "checkWebhookReady env w = (b, w1)"
      by (cases "checkWebhookReady env w")
    note q = checkWebhookReady_quiet [OF cw]
    show ?thesis
    proof (cases b)
      case True
      with "1.prems" cw c1 c2 have "w' = sleep 2000 (say ''Webhook is ready, retrying apply...'' w1)"
        by (simp add: applyWithRetry_wait.simps [of env m t s j w] Let_def)
      with q c1 show ?thesis by simp
    next
      case False
      with "1.prems" cw c1 c2
      have rec: "applyWithRetry_wait env m t s (Suc j) (sleep 3000 w1) = (r, w')"
        by (simp add: applyWithRetry_wait.simps [of env m t s j w] Let_def)
      from "1.IH" [OF c1 refl c2 cw [symmetric] _ rec] False
      have "probes w' \<le> probes (sleep 3000 w1) + (m div 3 - Suc j)" by simp
      with q c1 show ?thesis by simp
    qed
  qed
qed


lemma loop_cases [consumes 1, case_names finished ok other retry exhausted]:
  assumes "applyWithRetry_loop env c mr m st i w = (r, w')"
  obtains (finished) "\<not> i < mr" "r = Inr ()" "w' = w"
  | (ok) out where "i < mr" "exec env c w = (Inr out, w')" "r = Inr ()"
  | (other) e where "i < mr" "exec env c w = (Inl e, w')"
      "\<not> str_includes (errorMessage_of e) webhook_needle" "r = Inl e"
  | (retry) e w1 b w3 where "i < mr" "exec env c w = (Inl e, w1)"
      "str_includes (errorMessage_of e) webhook_needle"
      "i < mr - 1" "(now w1 - st) div 1000 < maxTotalWait"
      "applyWithRetry_wait env m ((now w1 - st) div 1000) (now w1) 0
         (say (''Webhook not ready: '' @ errorMessage_of e) w1) = (b, w3)"
      "applyWithRetry_loop env c mr m st (Suc i) (if \<not> b then sleep 5000 w3 else w3) = (r, w')"
  | (exhausted) e w1 where "i < mr" "exec env c w = (Inl e, w1)"
      "str_includes (errorMessage_of e) webhook_needle"
      "\<not> (i < mr - 1 \<and> (now w1 - st) div 1000 < maxTotalWait)"
      "w' = snd (showALBDiagnostics env
                  (say (''Webhook service not ready after '' @ decimal ((now w1 - st) div 1000) @
                        ''s and '' @ decimal (i + 1) @ '' retries.'') w1))"
      "r = Inl (webhookNotReady ((now w1 - st) div 1000))"
proof (cases "i < mr")
  case False
  with assms have "r = Inr ()" "w' = w"
    by (simp_all add: applyWithRetry_loop.simps [of env c mr m st i w])
  with False show ?thesis by (rule finished)
next
  case lt: True
  obtain x w1 where ex: "exec env c w = (x, w1)" by (cases "exec env c w")
  show ?thesis
  proof (cases x)
    case (Inr out)
    with assms lt ex have "r = Inr ()" "w' = w1"
      by (simp_all add: applyWithRetry_loop.simps [of env c mr m st i w])
    with lt ex Inr show ?thesis by (intro ok [of out]) simp_all
  next
    case (Inl e)
    show ?thesis
    proof (cases "str_includes (errorMessage_of e) webhook_needle")
      case False
      with assms lt ex Inl have "r = Inl e" "w' = w1"
        by (simp_all add: applyWithRetry_loop.simps [of env c mr m st i w] Let_def)
      with lt ex Inl False show ?thesis by (intro other [of e]) simp_all
    next
      case needle: True
      show ?thesis
      proof (cases "i < mr - 1 \<and> (now w1 - st) div 1000 < maxTotalWait")
        case True
        obtain b w3 where wt: "applyWithRetry_wait env m ((now w1 - st) div 1000) (now w1) 0
                (say (''Webhook not ready: '' @ errorMessage_of e) w1) = (b, w3)"
          by (cases "applyWithRetry_wait env m ((now w1 - st) div 1000) (now w1) 0
                (say (''Webhook not ready: '' @ errorMessage_of e) w1)")
        with assms lt ex Inl needle True
        have "applyWithRetry_loop env c mr m st (Suc i) (if \<not> b then sleep 5000 w3 else w3) = (r, w')"
          by (simp add: applyWithRetry_loop.simps [of env c mr m st i w] Let_def)
        with lt ex Inl needle True wt show ?thesis by (intro retry [of e w1 b w3]) simp_all
      next
        case False
        obtain u w2 where d: "showALBDiagnostics env
                  (say (''Webhook service not ready after '' @ decimal ((now w1 - st) div 1000) @
                        ''s and '' @ decimal (i + 1) @ '' retries.'') w1) = (Inr u, w2)"
          by (simp add: showALBDiagnostics_def Let_def)
        from False consider "\<not> i < mr - 1" | "\<not> (now w1 - st) div 1000 < maxTotalWait"
          by auto
        then have "w' = w2 \<and> r = Inl (webhookNotReady ((now w1 - st) div 1000))"
        proof cases
          case 1
          with assms lt ex Inl needle d show ?thesis
            by (simp add: applyWithRetry_loop.simps [of env c mr m st i w] Let_def)
        next
          case 2
          with assms lt ex Inl needle d show ?thesis
            by (simp add: applyWithRetry_loop.simps [of env c mr m st i w] Let_def)
        qed
        with lt ex Inl needle False d show ?thesis by (intro exhausted [of e w1]) simp_all
      qed
    qed
  qed
qed

lemma loop_bound:
  assumes "applyWithRetry_loop env c mr m st i w = (r, w')"
    and "slept w + st \<le> S0 + now w" and "slept w < S0 + 309000" and "st \<le> now w"
  shows "slept w' < S0 + 309000"
  using assms
proof (induction "mr - i" arbitrary: i w)
  case 0
  from "0.prems"(1) show ?case
    using "0.hyps" "0.prems"(2-) by (cases rule: loop_cases) simp_all
next
  case (Suc n)
  from Suc.prems(1) show ?case
  proof (cases rule: loop_cases)
    case finished
    with Suc.prems show ?thesis by simp
  next
    case (ok out)
    with Suc.prems exec_world [OF ok(2)] show ?thesis by simp
  next
    case (other e)
    with Suc.prems exec_world [OF other(2)] show ?thesis by simp
  next
    case (retry e w1 b w3)
    note x = exec_world [OF retry(2)]
    from retry(5) have "now w1 - st < 300000" by (simp add: maxTotalWait_def)
    with Suc.prems x have s1: "slept w1 < S0 + 300000" and i1: "slept w1 + st \<le> S0 + now w1"
      and o1: "st \<le> now w1" by simp_all
    from wait_bound [OF retry(6), of st S0] s1 i1 o1
    have wb: "slept w3 + st \<le> S0 + now w3" "slept w3 < S0 + 304000" "now w1 \<le> now w3"
      by simp_all
    from Suc.hyps(2) retry(1) have n: "n = mr - Suc i" by simp
    from wb o1 show ?thesis
      by (intro Suc.hyps(1) [OF n retry(7)]) (simp_all split: if_splits)
  next
    case (exhausted e w1)
    note x = exec_world [OF exhausted(2)]
    from showALBDiagnostics_quiet [of "say (''Webhook service not ready after '' @ decimal ((now w1 - st) div 1000) @
                        ''s and '' @ decimal (i + 1) @ '' retries.'') w1" env] exhausted(5)
    have "slept w' = slept w1" by (simp add: quiet_def)
    with Suc.prems x show ?thesis by simp
  qed
qed

lemma loop_probes:
  assumes "applyWithRetry_loop env (KubectlApply f) mr m st i w = (r, w')"
  shows "probes w' \<le> probes w + (mr - 1 - i) * (m div 3)"
  using assms
proof (induction "mr - i" arbitrary: i w)
  case 0
  from "0.prems"(1) show ?case
    using "0.hyps" by (cases rule: loop_cases) simp_all
next
  case (Suc n)
  from Suc.prems(1) show ?case
  proof (cases rule: loop_cases)
    case finished
    then show ?thesis by simp
  next
    case (ok out)
    with exec_world [OF ok(2)] show ?thesis by simp
  next
    case (other e)
    with exec_world [OF other(2)] show ?thesis by simp
  next
    case (retry e w1 b w3)
    note x = exec_world [OF retry(2)]
    from wait_probes [OF retry(6)] have p3: "probes w3 \<le> probes w1 + m div 3" by simp
    from Suc.hyps(2) retry(1) have n: "n = mr - Suc i" by simp
    from Suc.hyps(1) [OF n retry(7)]
    have "probes w' \<le> probes w3 + (mr - 1 - Suc i) * (m div 3)" by (simp split: if_splits)
    also have "\<dots> \<le> probes w + (m div 3 + (mr - 1 - Suc i) * (m div 3))" using p3 x by simp
    also have "m div 3 + (mr - 1 - Suc i) * (m div 3) = (Suc (mr - 1 - Suc i)) * (m div 3)" by simp
    also have "Suc (mr - 1 - Suc i) = mr - 1 - i" using retry(4) by simp
    finally show ?thesis .
  next
    case (exhausted e w1)
    note x = exec_world [OF exhausted(2)]
    from showALBDiagnostics_quiet [of "say (''Webhook service not ready after '' @ decimal ((now w1 - st) div 1000) @
                        ''s and '' @ decimal (i + 1) @ '' retries.'') w1" env] exhausted(5)
    have "probes w' = probes w1" by (simp add: quiet_def)
    with x show ?thesis by simp
  qed
qed


lemma loop_exhausted:
  assumes "applyWithRetry_loop env c mr m st i w = (r, w')"
    and "\<forall>k. webhook_unavailable (shell env k c)" and "i < mr"
  shows "\<exists>t. r = Inl (webhookNotReady t)"
  using assms
proof (induction "mr - i" arbitrary: i w)
  case 0
  then show ?case by simp
next
  case (Suc n)
  from Suc.prems(2) have un: "webhook_unavailable (shell env (calls w) c)" by blast
  from Suc.prems(1) show ?case
  proof (cases rule: loop_cases)
    case finished
    with Suc.prems show ?thesis by simp
  next
    case (ok out)
    with un exec_world(1) [OF ok(2)] show ?thesis
      by (auto simp: webhook_unavailable_def split: sum.splits)
  next
    case (other e)
    with un exec_world(1) [OF other(2)] show ?thesis
      by (auto simp: webhook_unavailable_def split: sum.splits)
  next
    case (retry e w1 b w3)
    from Suc.hyps(2) retry(1) have n: "n = mr - Suc i" by simp
    from retry(4) have "Suc i < mr" by simp
    with Suc.prems(2) show ?thesis by (intro Suc.hyps(1) [OF n retry(7)])
  next
    case (exhausted e w1)
    then show ?thesis by blast
  qed
qed


lemma env_never_ready_unavailable:
  "webhook_unavailable (shell env_never_ready k (KubectlApply f))"
  by (simp add: env_never_ready_def env0_def webhook_unavailable_def webhook_error_includes)


lemma never_ready_poll:
  "\<exists>w1. checkWebhookReady env_never_ready w = (False, w1) \<and> now w1 = now w \<and> slept w1 = slept w"
  by (simp add: checkWebhookReady_def checkALBPodReady_def checkALBDeploymentReady_def exec_def
      env_never_ready_def env0_def trim_def)

lemma never_ready_wait:
  assumes "j \<le> 100" and "100 < m div 3" and "now w = s + 3000 * j"
  shows "\<exists>w'. applyWithRetry_wait env_never_ready m 0 s j w = (False, w') \<and>
           slept w' = slept w + 3000 * (100 - j) \<and> now w' = now w + 3000 * (100 - j)"
  using assms
proof (induction "100 - j" arbitrary: j w)
  case 0
  then have j: "j = 100" by simp
  with "0.prems" show ?case
    by (subst applyWithRetry_wait.simps) (simp add: maxTotalWait_def Let_def)
next
  case (Suc n)
  then have j: "j < 100" by simp
  obtain w1 where p: "checkWebhookReady env_never_ready w = (False, w1)" "now w1 = now w"
    "slept w1 = slept w"
    using never_ready_poll [of w] by blast
  from j Suc.prems have nb: "\<not> maxTotalWait \<le> 0 + (now w - s) div 1000"
    by (simp add: maxTotalWait_def)
  from j Suc.prems nb p
  have unf: "applyWithRetry_wait env_never_ready m 0 s j w =
             applyWithRetry_wait env_never_ready m 0 s (Suc j) (sleep 3000 w1)"
    by (subst applyWithRetry_wait.simps) (simp add: Let_def)
  from Suc.hyps(2) have n: "n = 100 - Suc j" by simp
  from j Suc.prems p
  have "\<exists>w'. applyWithRetry_wait env_never_ready m 0 s (Suc j) (sleep 3000 w1) = (False, w') \<and>
           slept w' = slept (sleep 3000 w1) + 3000 * (100 - Suc j) \<and>
           now w' = now (sleep 3000 w1) + 3000 * (100 - Suc j)"
    by (intro Suc.hyps(1) [OF n]) simp_all
  with unf p j show ?case by (auto simp: Suc_diff_Suc)
qed


subsection \<open>The flags of the webhook wait loop\<close>

lemma wloop_unfold:
  "waitForALBWebhookReady_loop env n i p d w =
     (if i < n then
        (case stage_pod env p w of (p1, w1) \<Rightarrow>
         case stage_deployment env d w1 of (d1, w2) \<Rightarrow>
         case stage_endpoints env p1 d1 w2 of (e, w3) \<Rightarrow>
           if e then (True, sleep 2000 (say ''ALB Controller webhook endpoints are ready'' w3))
           else waitForALBWebhookReady_loop env n (Suc i) p1 d1
                  (if i < n - 1 then sleep 3000 w3 else w3))
      else (False, w))"
  by (subst waitForALBWebhookReady_loop.simps)
    (simp add: stage_pod_def stage_deployment_def stage_endpoints_def Let_def split: prod.splits)

lemma stage_pod_events:
  assumes "stage_pod env p w = (p1, w1)"
  shows "\<exists>evs. trace w1 = trace w @ evs \<and> (p \<longrightarrow> evs = [] \<and> p1) \<and>
           (\<not> p \<longrightarrow> (\<exists>t. evs = Exec GetALBPodPhase # t)) \<and>
           Exec GetALBReadyReplicas \<notin> set evs \<and> calls w \<le> calls w1"
  using assms
  by (auto simp: stage_pod_def checkALBPodReady_def exec_def say_if_def say_def
      split: if_splits sum.splits)

lemma stage_deployment_events:
  assumes "stage_deployment env d w = (d1, w1)"
  shows "\<exists>evs. trace w1 = trace w @ evs \<and> (d \<longrightarrow> evs = [] \<and> d1) \<and>
           (\<not> d \<longrightarrow> Exec GetALBReadyReplicas \<in> set evs) \<and>
           Exec GetALBPodPhase \<notin> set evs \<and> calls w \<le> calls w1"
  using assms
  by (auto simp: stage_deployment_def checkALBDeploymentReady_def exec_def say_if_def say_def
      split: if_splits sum.splits)

lemma stage_endpoints_events:
  assumes "stage_endpoints env p d w = (e, w1)"
  shows "\<exists>evs. trace w1 = trace w @ evs \<and> Exec GetALBPodPhase \<notin> set evs \<and>
           Exec GetALBReadyReplicas \<notin> set evs \<and> calls w \<le> calls w1 \<and>
           (e \<longrightarrow> (case shell env (calls w) GetWebhookEndpoints of
                     Inr t \<Rightarrow> trim t \<noteq> [] | Inl x \<Rightarrow> False) \<and> calls w1 = Suc (calls w))"
  using assms
  by (auto simp: stage_endpoints_def exec_def split: if_splits sum.splits)

lemma wloop_events:
  assumes "waitForALBWebhookReady_loop env n i p d w = (r, w')"
  shows "\<exists>evs. trace w' = trace w @ evs \<and>
           (p \<longrightarrow> Exec GetALBPodPhase \<notin> set evs) \<and>
           (d \<longrightarrow> Exec GetALBReadyReplicas \<notin> set evs) \<and>
           (\<not> p \<and> i < n \<longrightarrow> (\<exists>t. evs = Exec GetALBPodPhase # t)) \<and>
           (\<not> d \<and> i < n \<longrightarrow> Exec GetALBReadyReplicas \<in> set evs) \<and>
           calls w \<le> calls w' \<and>
           (r \<longrightarrow> (\<exists>k\<ge>calls w. (case shell env k GetWebhookEndpoints of
                     Inr t \<Rightarrow> trim t \<noteq> [] | Inl x \<Rightarrow> False) \<and> calls w' = Suc k))"
  using assms
proof (induction "n - i" arbitrary: i p d w)
  case 0
  then show ?case by (simp add: wloop_unfold [of env n i p d w])
next
  case (Suc m)
  then have lt: "i < n" by simp
  obtain p1 w1 where s1: "stage_pod env p w = (p1, w1)" by (cases "stage_pod env p w")
  obtain d1 w2 where s2: "stage_deployment env d w1 = (d1, w2)"
    by (cases "stage_deployment env d w1")
  obtain e w3 where s3: "stage_endpoints env p1 d1 w2 = (e, w3)"
    by (cases "stage_endpoints env p1 d1 w2")
  from stage_pod_events [OF s1] obtain ev1 where
    e1: "trace w1 = trace w @ ev1" "p \<longrightarrow> ev1 = [] \<and> p1" "\<not> p \<longrightarrow> (\<exists>t. ev1 = Exec GetALBPodPhase # t)"
      "Exec GetALBReadyReplicas \<notin> set ev1" "calls w \<le> calls w1" by blast
  from stage_deployment_events [OF s2] obtain ev2 where
    e2: "trace w2 = trace w1 @ ev2" "d \<longrightarrow> ev2 = [] \<and> d1" "\<not> d \<longrightarrow> Exec GetALBReadyReplicas \<in> set ev2"
      "Exec GetALBPodPhase \<notin> set ev2" "calls w1 \<le> calls w2" by blast
  from stage_endpoints_events [OF s3] obtain ev3 where
    e3: "trace w3 = trace w2 @ ev3" "Exec GetALBPodPhase \<notin> set ev3"
      "Exec GetALBReadyReplicas \<notin> set ev3" "calls w2 \<le> calls w3"
      "e \<longrightarrow> (case shell env (calls w2) GetWebhookEndpoints of
                     Inr t \<Rightarrow> trim t \<noteq> [] | Inl x \<Rightarrow> False) \<and> calls w3 = Suc (calls w2)" by blast
  show ?case
  proof (cases e)
    case True
    with Suc.prems lt s1 s2 s3
    have r: "r" and w': "w' = sleep 2000 (say ''ALB Controller webhook endpoints are ready'' w3)"
      by (simp_all add: wloop_unfold [of env n i p d w])
    let ?evs = "ev1 @ ev2 @ ev3 @ [Log ''ALB Controller webhook endpoints are ready'', Sleep 2000]"
    have "trace w' = trace w @ ?evs" using w' e1 e2 e3 by (simp add: sleep_def say_def)
    moreover have "p \<longrightarrow> Exec GetALBPodPhase \<notin> set ?evs" using e1 e2 e3 by auto
    moreover have "d \<longrightarrow> Exec GetALBReadyReplicas \<notin> set ?evs" using e1 e2 e3 by auto
    moreover have "\<not> p \<longrightarrow> (\<exists>t. ?evs = Exec GetALBPodPhase # t)" using e1 by auto
    moreover have "\<not> d \<longrightarrow> Exec GetALBReadyReplicas \<in> set ?evs" using e2 by auto
    moreover have "calls w \<le> calls w'" using w' e1 e2 e3 by (simp add: sleep_def say_def)
    moreover have "\<exists>k\<ge>calls w. (case shell env k GetWebhookEndpoints of
                     Inr t \<Rightarrow> trim t \<noteq> [] | Inl x \<Rightarrow> False) \<and> calls w' = Suc k"
      using True e3 e1 e2 w' by (intro exI [of _ "calls w2"]) (simp add: sleep_def say_def)
    ultimately show ?thesis by blast
  next
    case False
    let ?w4 = "if i < n - 1 then sleep 3000 w3 else w3"
    from False Suc.prems lt s1 s2 s3
    have rec: "waitForALBWebhookReady_loop env n (Suc i) p1 d1 ?w4 = (r, w')"
      by (simp add: wloop_unfold [of env n i p d w])
    from Suc.hyps(2) have m: "m = n - Suc i" by simp
    from Suc.hyps(1) [OF m rec] obtain ev5 where
      e5: "trace w' = trace ?w4 @ ev5" "p1 \<longrightarrow> Exec GetALBPodPhase \<notin> set ev5"
        "d1 \<longrightarrow> Exec GetALBReadyReplicas \<notin> set ev5" "calls ?w4 \<le> calls w'"
        "r \<longrightarrow> (\<exists>k\<ge>calls ?w4. (case shell env k GetWebhookEndpoints of
                     Inr t \<Rightarrow> trim t \<noteq> [] | Inl x \<Rightarrow> False) \<and> calls w' = Suc k)"
      by blast
    have "\<exists>ev4. trace ?w4 = trace w3 @ ev4 \<and> (ev4 = [] \<or> ev4 = [Sleep 3000]) \<and>
            calls ?w4 = calls w3" by (simp add: sleep_def)
    then obtain ev4 where e4: "trace ?w4 = trace w3 @ ev4" "ev4 = [] \<or> ev4 = [Sleep 3000]"
      "calls ?w4 = calls w3" by blast
    let ?evs = "ev1 @ ev2 @ ev3 @ ev4 @ ev5"
    have "trace w' = trace w @ ?evs" using e1 e2 e3 e4 e5 by simp
    moreover have "p \<longrightarrow> Exec GetALBPodPhase \<notin> set ?evs" using e1 e2 e3 e4 e5 by auto
    moreover have "d \<longrightarrow> Exec GetALBReadyReplicas \<notin> set ?evs" using e1 e2 e3 e4 e5 by auto
    moreover have "\<not> p \<longrightarrow> (\<exists>t. ?evs = Exec GetALBPodPhase # t)" using e1 by auto
    moreover have "\<not> d \<longrightarrow> Exec GetALBReadyReplicas \<in> set ?evs" using e2 by auto
    moreover have "calls w \<le> calls w'" using e1 e2 e3 e4 e5 by simp
    moreover have "r \<longrightarrow> (\<exists>k\<ge>calls w. (case shell env k GetWebhookEndpoints of
                     Inr t \<Rightarrow> trim t \<noteq> [] | Inl x \<Rightarrow> False) \<and> calls w' = Suc k)"
      using e5(5) e1 e2 e3 e4 by (auto intro: order_trans)
    ultimately show ?thesis by blast
  qed
qed



lemma env_pod_stops_run:
  "waitForALBWebhookReady env_pod_stops 90 world0 =
     (Inr True,
      \<lparr>now = 5000, calls = 4, slept = 5000,
        trace = [Exec GetALBPodPhase, Log ''ALB Controller pod is running'',
                 Exec GetALBReadyReplicas, Log ''ALB Controller deployment is ready'',
                 Exec GetWebhookEndpoints, Sleep 3000, Exec GetWebhookEndpoints,
                 Log ''ALB Controller webhook endpoints are ready'', Sleep 2000]\<rparr>)"
  by (simp add: waitForALBWebhookReady_def waitForALBWebhookReady_loop.simps
      checkALBPodReady_def checkALBDeploymentReady_def exec_def say_if_def say_def sleep_def
      env_pod_stops_def env0_def world0_def trim_def is_space_def)


lemma env_pod_stops_loop:
  "waitForALBWebhookReady_loop env_pod_stops 30 0 False False world0 =
     (True,
      \<lparr>now = 5000, calls = 4, slept = 5000,
        trace = [Exec GetALBPodPhase, Log ''ALB Controller pod is running'',
                 Exec GetALBReadyReplicas, Log ''ALB Controller deployment is ready'',
                 Exec GetWebhookEndpoints, Sleep 3000, Exec GetWebhookEndpoints,
                 Log ''ALB Controller webhook endpoints are ready'', Sleep 2000]\<rparr>)"
  by (simp add: waitForALBWebhookReady_loop.simps
      checkALBPodReady_def checkALBDeploymentReady_def exec_def say_if_def say_def sleep_def
      env_pod_stops_def env0_def world0_def trim_def is_space_def)

lemma env_pod_stops_loop_flags_set:
  "waitForALBWebhookReady_loop env_pod_stops 30 1 True True (world0\<lparr>calls := 3\<rparr>) =
     (True,
      \<lparr>now = 2000, calls = 4, slept = 2000,
        trace = [Exec GetWebhookEndpoints,
                 Log ''ALB Controller webhook endpoints are ready'', Sleep 2000]\<rparr>)"
  by (simp add: waitForALBWebhookReady_loop.simps
      exec_def say_if_def say_def sleep_def
      env_pod_stops_def env0_def world0_def trim_def is_space_def)


subsection \<open>The diagnostics routines\<close>

lemma getALBPodStatus_ran:
  "commands (trace (snd (getALBPodStatus env w))) = commands (trace w) @ [GetALBPodsJson]"
proof -
  obtain r w1 where e: "exec env GetALBPodsJson w = (r, w1)" by (cases "exec env GetALBPodsJson w")
  from exec_ran [OF e] show ?thesis
    by (simp add: getALBPodStatus_def e split: sum.splits option.splits list.splits)
qed

lemma diag_podStatus_ran:
  "commands (trace (diag_podStatus env w)) = commands (trace w) @ [GetALBPodsJson]"
proof -
  obtain r w1 where g: "getALBPodStatus env w = (r, w1)" by (cases "getALBPodStatus env w")
  then have "commands (trace w1) = commands (trace w) @ [GetALBPodsJson]"
    using getALBPodStatus_ran [of env w] by simp
  then show ?thesis
    by (simp add: diag_podStatus_def g Let_def split: option.splits)
qed

lemma diag_podDetails_ran:
  "commands (trace (diag_podDetails env w)) = commands (trace w) @ [GetALBPodsWide]"
proof -
  obtain r w1 where e: "exec env GetALBPodsWide w = (r, w1)" by (cases "exec env GetALBPodsWide w")
  from exec_ran [OF e] show ?thesis
    by (simp add: diag_podDetails_def e split: sum.splits)
qed

lemma diag_logs_ran:
  "commands (trace (diag_logs env w)) = commands (trace w) @ [GetALBLogs]"
proof -
  obtain r w1 where e: "exec env GetALBLogs w = (r, w1)" by (cases "exec env GetALBLogs w")
  from exec_ran [OF e] show ?thesis
    by (simp add: diag_logs_def e split: sum.splits)
qed

lemma diag_events_ran:
  "commands (trace (diag_events env w)) = commands (trace w) @ [GetKubeSystemEvents]"
proof -
  obtain r w1 where e: "exec env GetKubeSystemEvents w = (r, w1)"
    by (cases "exec env GetKubeSystemEvents w")
  from exec_ran [OF e] show ?thesis
    by (simp add: diag_events_def e split: sum.splits)
qed

lemma diag_nodes_ran:
  "commands (trace (diag_nodes env w)) = commands (trace w) @ [GetNodes]"
proof -
  obtain r w1 where e: "exec env GetNodes w = (r, w1)" by (cases "exec env GetNodes w")
  from exec_ran [OF e] show ?thesis
    by (simp add: diag_nodes_def e Let_def split: sum.splits)
qed

lemma diag_nodeResources_ran:
  "commands (trace (diag_nodeResources env w)) = commands (trace w) @ [TopNodes]"
proof -
  obtain r w1 where e: "exec env TopNodes w = (r, w1)" by (cases "exec env TopNodes w")
  from exec_ran [OF e] show ?thesis
    by (simp add: diag_nodeResources_def e split: sum.splits)
qed

lemma diag_nodeGroups_ran:
  "commands (trace (diag_nodeGroups env w)) = commands (trace w) @ [GetNodeGroupsText]"
proof -
  obtain r w1 where e: "exec env GetNodeGroupsText w = (r, w1)"
    by (cases "exec env GetNodeGroupsText w")
  from exec_ran [OF e] show ?thesis
    by (simp add: diag_nodeGroups_def e split: sum.splits)
qed

lemma diag_commonIssues_ran:
  "commands (trace (diag_commonIssues env w)) = commands (trace w) @ [GetALBPodsJson]"
proof -
  obtain r w1 where g: "getALBPodStatus env (say ''Common issues and solutions:'' w) = (r, w1)"
    by (cases "getALBPodStatus env (say ''Common issues and solutions:'' w)")
  then have "commands (trace w1) = commands (trace w) @ [GetALBPodsJson]"
    using getALBPodStatus_ran [of env "say ''Common issues and solutions:'' w"] by simp
  then show ?thesis
    by (simp add: diag_commonIssues_def g)
qed

lemma showALBDiagnostics_ran:
  "commands (trace (snd (showALBDiagnostics env w))) =
     commands (trace w) @ [GetALBPodsJson, GetALBPodsWide, GetALBLogs, GetKubeSystemEvents,
       GetNodes, TopNodes, GetNodeGroupsText, GetALBPodsJson]"
  by (simp add: showALBDiagnostics_def Let_def diag_podStatus_ran diag_podDetails_ran
      diag_logs_ran diag_events_ran diag_nodes_ran diag_nodeResources_ran diag_nodeGroups_ran
      diag_commonIssues_ran)

lemma diagnose_podStatus_ran:
  "commands (trace (diagnose_podStatus env ns app w)) = commands (trace w) @ [GetAppPodsWide ns app]"
    and diagnose_podStatus_calls: "calls (diagnose_podStatus env ns app w) = Suc (calls w)"
proof -
  obtain r w1 where e: "exec env (GetAppPodsWide ns app) w = (r, w1)"
    by (cases "exec env (GetAppPodsWide ns app) w")
  from exec_ran [OF e]
  show "commands (trace (diagnose_podStatus env ns app w)) = commands (trace w) @ [GetAppPodsWide ns app]"
    and "calls (diagnose_podStatus env ns app w) = Suc (calls w)"
    by (simp_all add: diagnose_podStatus_def e say_if_def say_def split: sum.splits)
qed

lemma diagnose_podEvents_ran:
  "commands (trace (diagnose_podEvents env ns app w)) =
     commands (trace w) @ GetNewestPodName ns app #
       (case shell env (calls w) (GetNewestPodName ns app) of
          Inl e \<Rightarrow> []
        | Inr out \<Rightarrow>
            if trim out = [] then []
            else DescribePodEvents (trim out) ns #
                   (case shell env (Suc (calls w)) (DescribePodEvents (trim out) ns) of
                      Inl e \<Rightarrow> [] | Inr ev \<Rightarrow> [GetPodLogs (trim out) ns]))"
  by (simp add: diagnose_podEvents_def exec_def say_def Let_def split: sum.splits)

text \<open>
  C8 (amended). Both diagnostics routines always return normally. \<open>showALBDiagnostics\<close>
  runs its eight queries (pod status, pod details, logs, events, nodes, node resources,
  node groups and the pod status once more) whatever fails. \<open>diagnoseDeploymentFailure\<close>
  always lists the pods and looks up the newest pod; it describes the pod's events when
  a pod name came back, and it fetches the logs only when that description succeeded.
\<close>

theorem diagnostics_total:
  "fst (showALBDiagnostics env w) = Inr () \<and>
   commands (trace (snd (showALBDiagnostics env w))) =
     commands (trace w) @ [GetALBPodsJson, GetALBPodsWide, GetALBLogs, GetKubeSystemEvents,
       GetNodes, TopNodes, GetNodeGroupsText, GetALBPodsJson] \<and>
   fst (diagnoseDeploymentFailure env config w) = Inr () \<and>
   commands (trace (snd (diagnoseDeploymentFailure env config w))) =
     commands (trace w) @
       [GetAppPodsWide (namespace_or_default config) (appName config),
        GetNewestPodName (namespace_or_default config) (appName config)] @
       (case shell env (Suc (calls w)) (GetNewestPodName (namespace_or_default config) (appName config)) of
          Inl e \<Rightarrow> []
        | Inr out \<Rightarrow>
            if trim out = [] then []
            else DescribePodEvents (trim out) (namespace_or_default config) #
                   (case shell env (Suc (Suc (calls w)))
                           (DescribePodEvents (trim out) (namespace_or_default config)) of
                      Inl e \<Rightarrow> []
                    | Inr ev \<Rightarrow> [GetPodLogs (trim out) (namespace_or_default config)]))"
proof -
  have a: "fst (showALBDiagnostics env w) = Inr ()"
    by (simp add: showALBDiagnostics_def Let_def)
  have b: "fst (diagnoseDeploymentFailure env config w) = Inr ()"
    by (simp add: diagnoseDeploymentFailure_def Let_def)
  have c: "commands (trace (snd (diagnoseDeploymentFailure env config w))) =
     commands (trace w) @
       [GetAppPodsWide (namespace_or_default config) (appName config),
        GetNewestPodName (namespace_or_default config) (appName config)] @
       (case shell env (Suc (calls w)) (GetNewestPodName (namespace_or_default config) (appName config)) of
          Inl e \<Rightarrow> []
        | Inr out \<Rightarrow>
            if trim out = [] then []
            else DescribePodEvents (trim out) (namespace_or_default config) #
                   (case shell env (Suc (Suc (calls w)))
                           (DescribePodEvents (trim out) (namespace_or_default config)) of
                      Inl e \<Rightarrow> []
                    | Inr ev \<Rightarrow> [GetPodLogs (trim out) (namespace_or_default config)]))"
    by (simp add: diagnoseDeploymentFailure_def Let_def diagnose_podEvents_ran
        diagnose_podStatus_ran diagnose_podStatus_calls split: sum.splits)
  from a b c showALBDiagnostics_ran [of env w] show ?thesis by blast
qed

lemma trim_pod_name: "trim ''web-5d7'' = ''web-5d7''"
  by (simp add: trim_def is_space_def)

theorem diagnostics_total_witness:
  "fst (diagnoseDeploymentFailure env_pod_found config0 world0) = Inr () \<and>
   commands (trace (snd (diagnoseDeploymentFailure env_pod_found config0 world0))) =
     [GetAppPodsWide ''default'' ''web'', GetNewestPodName ''default'' ''web'',
      DescribePodEvents ''web-5d7'' ''default'', GetPodLogs ''web-5d7'' ''default'']"
  using diagnostics_total [of env_pod_found world0 config0]
  by (simp add: env_pod_found_def env0_def world0_def config0_def namespace_or_default_def
      trim_pod_name)

text \<open>
  C8 as stated fails for \<open>diagnoseDeploymentFailure\<close>: when describing the pod fails,
  the logs are never asked for, though they are when the description succeeds.
\<close>

theorem failed_describe_skips_logs:
  "commands (trace (snd (diagnoseDeploymentFailure env_describe_fails config0 world0))) =
     [GetAppPodsWide ''default'' ''web'', GetNewestPodName ''default'' ''web'',
      DescribePodEvents ''web-5d7'' ''default''] \<and>
   commands (trace (snd (diagnoseDeploymentFailure env_pod_found config0 world0))) =
     [GetAppPodsWide ''default'' ''web'', GetNewestPodName ''default'' ''web'',
      DescribePodEvents ''web-5d7'' ''default'', GetPodLogs ''web-5d7'' ''default'']"
  by (simp add: diagnoseDeploymentFailure_def Let_def
      diagnose_podEvents_ran diagnose_podStatus_ran diagnose_podStatus_calls
      env_describe_fails_def env_pod_found_def env0_def world0_def config0_def
      namespace_or_default_def trim_pod_name say_def)

section \<open>The delete command\<close>

lemma deleteEach_total:
  "fst (deleteEach env ns rs w) = Inr () \<and>
   commands (trace (snd (deleteEach env ns rs w))) =
     commands (trace w) @ map (\<lambda>(kind, name). KubectlDelete kind name ns) rs"
proof (induction rs arbitrary: w)
  case Nil
  show ?case by simp
next
  case (Cons r rs)
  obtain kind name where r: "r = (kind, name)" by (cases r)
  obtain x w1 where e: "exec env (KubectlDelete kind name ns) w = (x, w1)"
    by (cases "exec env (KubectlDelete kind name ns) w")
  from exec_ran [OF e] have c: "commands (trace w1) = commands (trace w) @ [KubectlDelete kind name ns]"
    by simp
  show ?case
  proof (cases x)
    case (Inl error)
    with Cons.IH [of "say_if (\<not> str_includes (message error) ''not found'')
               (kind @ '' '' @ quoted name @ '' - '' @ message error) w1"] c
    show ?thesis by (simp add: r e)
  next
    case (Inr out)
    with Cons.IH [of "say (kind @ '' '' @ quoted name @ '' deleted'') w1"] c
    show ?thesis by (simp add: r e)
  qed
qed

lemma deleteResources_total:
  "fst (deleteResources env ns app w) = Inr () \<and>
   commands (trace (snd (deleteResources env ns app w))) =
     commands (trace w) @
       [KubectlDelete ''deployment'' app ns, KubectlDelete ''service'' (app @ ''-service'') ns,
        KubectlDelete ''ingress'' (app @ ''-ingress'') ns, KubectlDelete ''hpa'' (app @ ''-hpa'') ns]"
proof -
  obtain x w1 where d: "deleteEach env ns (delete_resources app) w = (x, w1)"
    by (cases "deleteEach env ns (delete_resources app) w")
  from deleteEach_total [of env ns "delete_resources app" w] d
  have x: "x = Inr ()" and "commands (trace w1) =
     commands (trace w) @ map (\<lambda>(kind, name). KubectlDelete kind name ns) (delete_resources app)"
    by simp_all
  then have c: "commands (trace w1) = commands (trace w) @
       [KubectlDelete ''deployment'' app ns, KubectlDelete ''service'' (app @ ''-service'') ns,
        KubectlDelete ''ingress'' (app @ ''-ingress'') ns, KubectlDelete ''hpa'' (app @ ''-hpa'') ns]"
    by (simp add: delete_resources_def)
  show ?thesis unfolding deleteResources_def d x using c by simp
qed


lemma not_found_error_includes: "str_includes (message not_found_error) ''not found''"
  by (simp add: not_found_error_def Error_def)

lemma env_already_deleted_run:
  "deleteResources env_already_deleted ''default'' ''web'' world0 =
     (Inr (),
      \<lparr>now = 0, calls = 4, slept = 0,
        trace = [Exec (KubectlDelete ''deployment'' ''web'' ''default''),
                 Exec (KubectlDelete ''service'' ''web-service'' ''default''),
                 Log (''service '' @ quoted ''web-service'' @ '' deleted''),
                 Exec (KubectlDelete ''ingress'' ''web-ingress'' ''default''),
                 Log (''ingress '' @ quoted ''web-ingress'' @ '' - The connection to the server was refused''),
                 Exec (KubectlDelete ''hpa'' ''web-hpa'' ''default''),
                 Log (''hpa '' @ quoted ''web-hpa'' @ '' deleted''),
                 Log (''Deleted '' @ quoted ''web'' @ '' and related resources.'')]\<rparr>)"
  by (simp add: deleteResources_def delete_resources_def exec_def say_def say_if_def
      env_already_deleted_def env0_def world0_def not_found_error_def connection_refused_def
      Error_def quoted_def)


section \<open>The node check\<close>

lemma cluster_has_no_nodes_other:
  "\<not> str_includes (message cluster_has_no_nodes) ''Nodes did not become ready''"
  by (simp add: cluster_has_no_nodes_def Error_def)

lemma ensureNodeGroup_error:
  "fst (ensureNodeGroup env config w) = Inl e \<Longrightarrow> e = cluster_has_no_nodes"
  by (cases "ensureNodeGroup_try env config w")
    (auto simp add: ensureNodeGroup_def split: sum.splits)

text \<open>
  Claim C10. \<open>checkAndEnsureNodes\<close> rethrows only the timeout of its poll: an error it
  throws has a message containing \<open>Nodes did not become ready\<close> and was thrown by its
  body; every other error of the body is caught, logged as the warning
  \<open>Could not ensure nodes: ...\<close>, and the function returns normally. In particular a
  failure to inspect, scale or create the node groups becomes the error
  \<open>Cluster has no nodes. Please create a node group and try again.\<close>, which is caught
  in this way; and whenever the function returns normally, step 4.1 of the pipeline reports
  \<open>Cluster nodes ready\<close> and the pipeline goes on.
\<close>

theorem checkAndEnsureNodes_rethrows_only_timeout:
  "(\<forall>e. fst (checkAndEnsureNodes env config w) = Inl e \<longrightarrow>
        str_includes (message e) ''Nodes did not become ready'' \<and>
        fst (checkAndEnsureNodes_try env config w) = Inl e) \<and>
   (\<forall>e w1. checkAndEnsureNodes_try env config w = (Inl e, w1) \<and>
        \<not> str_includes (message e) ''Nodes did not become ready'' \<longrightarrow>
        checkAndEnsureNodes env config w =
          (Inr (), say (''Could not ensure nodes: '' @ message e) w1)) \<and>
   (\<forall>e w0 w1. ensureNodeGroup_try env config w0 = (Inl e, w1) \<longrightarrow>
        fst (ensureNodeGroup env config w0) = Inl cluster_has_no_nodes) \<and>
   (\<forall>w1. checkAndEnsureNodes_try env config w = (Inl cluster_has_no_nodes, w1) \<longrightarrow>
        checkAndEnsureNodes env config w =
          (Inr (),
           say ''Could not ensure nodes: Cluster has no nodes. Please create a node group and try again.''
             w1)) \<and>
   (\<forall>u w1. checkAndEnsureNodes env config (say ''Step 4.1: Checking cluster nodes...'' w) = (Inr u, w1) \<longrightarrow>
        deployToEKS_step4_1 env config w = (Inr (), say ''Cluster nodes ready'' w1))"
proof -
  have a: "str_includes (message e) ''Nodes did not become ready'' \<and>
        fst (checkAndEnsureNodes_try env config w) = Inl e"
    if "fst (checkAndEnsureNodes env config w) = Inl e" for e
    using that
    by (cases "checkAndEnsureNodes_try env config w")
      (auto simp add: checkAndEnsureNodes_def split: sum.splits if_splits)
  have b: "checkAndEnsureNodes env config w =
          (Inr (), say (''Could not ensure nodes: '' @ message e) w1)"
    if "checkAndEnsureNodes_try env config w = (Inl e, w1)"
       "\<not> str_includes (message e) ''Nodes did not become ready''" for e w1
    using that by (simp add: checkAndEnsureNodes_def)
  have c: "fst (ensureNodeGroup env config w0) = Inl cluster_has_no_nodes"
    if "ensureNodeGroup_try env config w0 = (Inl e, w1)" for e w0 w1
    using that by (simp add: ensureNodeGroup_def)
  have d: "checkAndEnsureNodes env config w =
          (Inr (),
           say ''Could not ensure nodes: Cluster has no nodes. Please create a node group and try again.''
             w1)"
    if "checkAndEnsureNodes_try env config w = (Inl cluster_has_no_nodes, w1)" for w1
    using b [OF that cluster_has_no_nodes_other]
    by (simp add: cluster_has_no_nodes_def Error_def)
  have e: "deployToEKS_step4_1 env config w = (Inr (), say ''Cluster nodes ready'' w1)"
    if "checkAndEnsureNodes env config (say ''Step 4.1: Checking cluster nodes...'' w) = (Inr u, w1)"
    for u w1
    using that by (simp add: deployToEKS_step4_1_def and_then_def)
  from a b c d e show ?thesis by blast
qed

lemma env_create_fails_group:
  "ensureNodeGroup_try env_create_fails config0
     \<lparr>now = 0, calls = Suc 0, slept = 0,
        trace = [Log ''Step 4.1: Checking cluster nodes...'', Exec GetNodesCount,
                 Log ''No nodes found in cluster. Checking node groups...'']\<rparr> =
   (Inl connection_refused,
    \<lparr>now = 0, calls = 3, slept = 0,
        trace = [Log ''Step 4.1: Checking cluster nodes...'', Exec GetNodesCount,
                 Log ''No nodes found in cluster. Checking node groups...'',
                 Exec (GetNodeGroupsJson ''demo'' ''us-east-1''),
                 Log ''No node groups found. Creating default node group...'',
                 Exec (CreateNodeGroup ''demo'' ''us-east-1'')]\<rparr>)"
  by (simp add: ensureNodeGroup_try_def exec_def say_def env_create_fails_def env0_def config0_def
      trim_def is_space_def)

lemma parseInt_or0_zero: "parseInt_or0 (trim ''0'') = 0"
  by (simp add: parseInt_or0_def parseInt_def trim_def is_space_def digit_value_def Let_def)

lemma env_create_fails_try:
  "checkAndEnsureNodes_try env_create_fails config0 (say ''Step 4.1: Checking cluster nodes...'' world0) =
   (Inl cluster_has_no_nodes,
    \<lparr>now = 0, calls = 3, slept = 0,
        trace = [Log ''Step 4.1: Checking cluster nodes...'', Exec GetNodesCount,
                 Log ''No nodes found in cluster. Checking node groups...'',
                 Exec (GetNodeGroupsJson ''demo'' ''us-east-1''),
                 Log ''No node groups found. Creating default node group...'',
                 Exec (CreateNodeGroup ''demo'' ''us-east-1''),
                 Log ''Could not check/create node groups: The connection to the server was refused'',
                 Log ''Please create node group manually:'',
                 Log ''eksctl create nodegroup --cluster=demo --nodes=1 --node-type=t3.small --region=us-east-1'']\<rparr>)"
proof -
  have x: "exec env_create_fails GetNodesCount (say ''Step 4.1: Checking cluster nodes...'' world0) =
     (Inr ''0'', \<lparr>now = 0, calls = 1, slept = 0,
        trace = [Log ''Step 4.1: Checking cluster nodes...'', Exec GetNodesCount]\<rparr>)"
    by (simp add: exec_def say_def env_create_fails_def env0_def world0_def)
  have c: "clusterName config0 = ''demo''" "region config0 = ''us-east-1''"
    by (simp_all add: config0_def)
  show ?thesis
    unfolding checkAndEnsureNodes_try_def x
    by (simp add: parseInt_or0_zero say_def ensureNodeGroup_def env_create_fails_group c
        connection_refused_def Error_def)
qed


lemma parseInt_or0_empty: "parseInt_or0 (trim []) = 0"
  by (simp add: parseInt_or0_def parseInt_def trim_def Let_def)

lemma waitForNodes_env0: "fst (waitForNodes env0 i w) = Inl nodes_not_ready"
proof (induction "60 - i" arbitrary: i w)
  case 0
  then show ?case by (subst waitForNodes.simps) simp
next
  case (Suc n)
  then have "n = 60 - Suc i" and "i < 60" by simp_all
  with Suc.hyps(1) show ?case
    by (subst waitForNodes.simps) (simp add: exec_def env0_def parseInt_or0_empty)
qed

lemma env0_nodes_never_ready:
  "fst (checkAndEnsureNodes env0 config0 world0) = Inl nodes_not_ready"
proof -
  have t: "fst (checkAndEnsureNodes_try env0 config0 world0) = Inl nodes_not_ready"
    using waitForNodes_env0
    by (simp add: checkAndEnsureNodes_try_def ensureNodeGroup_def ensureNodeGroup_try_def
        exec_def parseInt_or0_empty env0_def split: prod.splits sum.splits)
  have n: "str_includes (message nodes_not_ready) ''Nodes did not become ready''"
    by (simp add: nodes_not_ready_def Error_def)
  obtain r w1 where c: "checkAndEnsureNodes_try env0 config0 world0 = (r, w1)"
    by (cases "checkAndEnsureNodes_try env0 config0 world0")
  with t have "r = Inl nodes_not_ready" by simp
  with c n show ?thesis by (simp add: checkAndEnsureNodes_def)
qed

theorem checkAndEnsureNodes_rethrows_only_timeout_witness:
  "fst (checkAndEnsureNodes env0 config0 world0) = Inl nodes_not_ready \<and>
   str_includes (message nodes_not_ready) ''Nodes did not become ready'' \<and>
   fst (checkAndEnsureNodes_try env_create_fails config0
          (say ''Step 4.1: Checking cluster nodes...'' world0)) = Inl cluster_has_no_nodes \<and>
   \<not> str_includes (message cluster_has_no_nodes) ''Nodes did not become ready'' \<and>
   fst (checkAndEnsureNodes env_create_fails config0
          (say ''Step 4.1: Checking cluster nodes...'' world0)) = Inr () \<and>
   fst (deployToEKS_step4_1 env_create_fails config0 world0) = Inr () \<and>
   last (trace (snd (deployToEKS_step4_1 env_create_fails config0 world0))) = Log ''Cluster nodes ready''"
proof -
  let ?w = "say ''Step 4.1: Checking cluster nodes...'' world0"
  define w1 where "w1 = snd (checkAndEnsureNodes_try env_create_fails config0 ?w)"
  have t: "checkAndEnsureNodes_try env_create_fails config0 ?w = (Inl cluster_has_no_nodes, w1)"
    by (simp add: w1_def env_create_fails_try)
  from checkAndEnsureNodes_rethrows_only_timeout [of env0 config0 world0] env0_nodes_never_ready
  have a: "str_includes (message nodes_not_ready) ''Nodes did not become ready''" by blast
  from checkAndEnsureNodes_rethrows_only_timeout [of env_create_fails config0 ?w] t
  have r: "checkAndEnsureNodes env_create_fails config0 ?w =
     (Inr (), say ''Could not ensure nodes: Cluster has no nodes. Please create a node group and try again.'' w1)"
    by blast
  with checkAndEnsureNodes_rethrows_only_timeout [of env_create_fails config0 world0]
  have s: "deployToEKS_step4_1 env_create_fails config0 world0 =
     (Inr (), say ''Cluster nodes ready''
        (say ''Could not ensure nodes: Cluster has no nodes. Please create a node group and try again.'' w1))"
    by blast
  show ?thesis
    unfolding s r t using a env0_nodes_never_ready cluster_has_no_nodes_other
    by (simp add: say_def)
qed

section \<open>The certificate check\<close>

lemma requested_simps [simp]:
  "requested (say line w) = requested w"
  "requested (sleep ms w) = requested w"
  "requested (say_if b line w) = requested w"
  by (simp_all add: requested_def say_def sleep_def say_if_def)

lemma requested_exec:
  "\<not> is_request c \<Longrightarrow> requested (snd (exec env c w)) = requested w"
  by (simp add: requested_def exec_def)

lemma requested_ran:
  "exec env c w = (r, w1) \<Longrightarrow> \<not> is_request c \<Longrightarrow> requested w1 = requested w"
  using requested_exec [of c env w] by simp

lemma requested_quiet_helper [simp]: "requested (quiet_helper env name w) = requested w"
  by (simp add: quiet_helper_def requested_exec)

lemma requested_still_validating [simp]: "requested (still_validating config arn w) = requested w"
  by (simp add: still_validating_def)

lemma requested_exec_then:
  assumes "\<not> is_request c" and "\<And>a w1. requested (snd (f a w1)) = requested w1"
  shows "requested (snd (and_then (exec env c w) f)) = requested w"
proof -
  obtain r w1 where e: "exec env c w = (r, w1)" by (cases "exec env c w")
  from requested_ran [OF e assms(1)] assms(2) show ?thesis
    by (simp add: and_then_def e split: sum.splits)
qed

lemma requested_enableHTTPS:
  "requested (snd (enableHTTPS env config arn w)) = requested w"
  unfolding enableHTTPS_def
  by (rule requested_exec_then, simp, rule requested_exec_then, simp, rule requested_exec_then) simp_all

lemma requested_waitForValidation:
  "requested (snd (waitForValidation env config arn n w)) = requested w"
proof (induction n arbitrary: w)
  case 0
  show ?case by (subst waitForValidation.simps) simp
next
  case (Suc n)
  obtain r w1 where e: "exec env (AcmDescribeCertificate arn) (sleep 10000 w) = (r, w1)"
    by (cases "exec env (AcmDescribeCertificate arn) (sleep 10000 w)")
  have q: "requested w1 = requested w"
    using requested_ran [OF e] by simp
  show ?case
  proof (cases r)
    case (Inl error)
    with q show ?thesis by (subst waitForValidation.simps) (simp add: e)
  next
    case (Inr status)
    obtain x w2 where h: "enableHTTPS env config arn
        (say ''Enabling HTTPS...'' (say ''Certificate validated successfully!'' w1)) = (x, w2)"
      by (cases "enableHTTPS env config arn
        (say ''Enabling HTTPS...'' (say ''Certificate validated successfully!'' w1))")
    have "requested w2 = requested w1"
      using requested_enableHTTPS [of env config arn
          "say ''Enabling HTTPS...'' (say ''Certificate validated successfully!'' w1)"] h
      by simp
    with q Inr Suc.IH [of w1] show ?thesis
      by (subst waitForValidation.simps) (simp add: e h and_then_def split: sum.splits)
  qed
qed

lemma pending_poll:
  "k < 7 \<Longrightarrow> 0 < n \<Longrightarrow>
   waitForValidation env_validation_times_out config arn n
     \<lparr>now = t, calls = k, slept = s, trace = tr\<rparr> =
   waitForValidation env_validation_times_out config arn (n - 1)
     \<lparr>now = t + 10000, calls = Suc k, slept = s + 10000,
        trace = tr @ [Sleep 10000, Exec (AcmDescribeCertificate arn)]\<rparr>"
  by (subst waitForValidation.simps)
    (simp add: exec_def sleep_def env_validation_times_out_def env0_def)

lemma final_poll:
  "\<not> k < 7 \<Longrightarrow> 0 < n \<Longrightarrow>
   waitForValidation env_validation_times_out config arn n
     \<lparr>now = t, calls = k, slept = s, trace = tr\<rparr> =
   (Inr False,
    \<lparr>now = t + 10000, calls = Suc k, slept = s + 10000,
       trace = tr @ [Sleep 10000, Exec (AcmDescribeCertificate arn),
                     Log ''Certificate validation failed. Status: VALIDATION_TIMED_OUT'',
                     Log ''Will attempt to request new certificate...'']\<rparr>)"
  by (subst waitForValidation.simps)
    (simp add: exec_def sleep_def say_def env_validation_times_out_def env0_def)

text \<open>
  Claim C2. When the wait for the validation of the configured certificate sees the status
  \<open>VALIDATION_TIMED_OUT\<close> after five polls with \<open>PENDING_VALIDATION\<close>, the loop stops
  polling at once, but no new certificate is requested: the branch taken for a certificate
  that was pending when first described never requests one, whatever the polls answer. At
  the input \<open>env_validation_times_out\<close> the check announces
  \<open>Will attempt to request new certificate...\<close>, reports that the validation is taking
  longer than expected, and returns with the configuration unchanged, having run no command
  but the descriptions of the same certificate and the set-up of its validation records.
\<close>

theorem pending_certificate_not_rerequested:
  "requested (snd (certificate_pending env config d arn w)) = requested w \<and>
   checkCertificate env_validation_times_out config_domain domain0 arn0 world0 =
     (config_domain,
      \<lparr>now = 60000, calls = 8, slept = 60000,
         trace = [Exec (AcmDescribeCertificate arn0),
                  Log ''Certificate is pending validation. Setting up validation and waiting...'',
                  Log ''Setting up certificate validation DNS records...'',
                  Exec (Helper ''setupCertificateValidation''),
                  Log ''Waiting for certificate validation (this may take 5-10 minutes)...'',
                  Sleep 10000, Exec (AcmDescribeCertificate arn0),
                  Sleep 10000, Exec (AcmDescribeCertificate arn0),
                  Sleep 10000, Exec (AcmDescribeCertificate arn0),
                  Sleep 10000, Exec (AcmDescribeCertificate arn0),
                  Sleep 10000, Exec (AcmDescribeCertificate arn0),
                  Sleep 10000, Exec (AcmDescribeCertificate arn0),
                  Log ''Certificate validation failed. Status: VALIDATION_TIMED_OUT'',
                  Log ''Will attempt to request new certificate...'',
                  Log ''Certificate validation is taking longer than expected.'',
                  Log (''Certificate ARN: '' @ arn0),
                  Log ''HTTPS will be enabled automatically once validation completes.'',
                  Log (''You can check status: aws acm describe-certificate --certificate-arn '' @
                       arn0 @ '' --region us-east-1'')]\<rparr>)"
proof -
  have a: "requested (snd (certificate_pending env config d arn w)) = requested w"
  proof -
    let ?w = "say ''Waiting for certificate validation (this may take 5-10 minutes)...''
                (quiet_helper env ''setupCertificateValidation''
                   (say ''Setting up certificate validation DNS records...''
                      (say ''Certificate is pending validation. Setting up validation and waiting...'' w)))"
    obtain r w2 where v: "waitForValidation env config arn 60 ?w = (r, w2)"
      by (cases "waitForValidation env config arn 60 ?w")
    have "requested w2 = requested w"
      using requested_waitForValidation [of env config arn 60 ?w] v by simp
    then show ?thesis
      by (simp add: certificate_pending_def Let_def and_then_def v split: sum.splits)
  qed
  have h: "hasCloudflare domain0" by (simp add: hasCloudflare_def domain0_def)
  have g: "region config_domain = ''us-east-1''" by (simp add: config_domain_def config0_def)
  have x: "exec env_validation_times_out (AcmDescribeCertificate arn0) world0 =
     (Inr ''PENDING_VALIDATION'',
      \<lparr>now = 0, calls = Suc 0, slept = 0, trace = [Exec (AcmDescribeCertificate arn0)]\<rparr>)"
    by (simp add: exec_def env_validation_times_out_def env0_def world0_def)
  have y: "quiet_helper env_validation_times_out ''setupCertificateValidation''
             \<lparr>now = 0, calls = Suc 0, slept = 0, trace = tr\<rparr> =
           \<lparr>now = 0, calls = 2, slept = 0,
              trace = tr @ [Exec (Helper ''setupCertificateValidation'')]\<rparr>" for tr
    by (simp add: quiet_helper_def exec_def env_validation_times_out_def env0_def)
  have b: "checkCertificate env_validation_times_out config_domain domain0 arn0 world0 =
     (config_domain,
      \<lparr>now = 60000, calls = 8, slept = 60000,
         trace = [Exec (AcmDescribeCertificate arn0),
                  Log ''Certificate is pending validation. Setting up validation and waiting...'',
                  Log ''Setting up certificate validation DNS records...'',
                  Exec (Helper ''setupCertificateValidation''),
                  Log ''Waiting for certificate validation (this may take 5-10 minutes)...'',
                  Sleep 10000, Exec (AcmDescribeCertificate arn0),
                  Sleep 10000, Exec (AcmDescribeCertificate arn0),
                  Sleep 10000, Exec (AcmDescribeCertificate arn0),
                  Sleep 10000, Exec (AcmDescribeCertificate arn0),
                  Sleep 10000, Exec (AcmDescribeCertificate arn0),
                  Sleep 10000, Exec (AcmDescribeCertificate arn0),
                  Log ''Certificate validation failed. Status: VALIDATION_TIMED_OUT'',
                  Log ''Will attempt to request new certificate...'',
                  Log ''Certificate validation is taking longer than expected.'',
                  Log (''Certificate ARN: '' @ arn0),
                  Log ''HTTPS will be enabled automatically once validation completes.'',
                  Log (''You can check status: aws acm describe-certificate --certificate-arn '' @
                       arn0 @ '' --region us-east-1'')]\<rparr>)"
    unfolding checkCertificate_def x
    by (simp add: certificate_pending_def h g say_def y pending_poll final_poll and_then_def
        still_validating_def)
  from a b show ?thesis by (rule conjI)
qed

end
